theory Spec2Isabelle
  imports Complex_Main
begin

section \<open>Values of the store: amounts, timestamps, intervals\<close>

text \<open>
  The routes of the invoice API are thin request handlers around SQL statements that
  PostgreSQL evaluates. The embedding below gives each modelled statement as a function
  over the tables, a list of rows per table. Amounts are NUMERIC values, modelled as exact
  rationals. A timestamp is a civil date with the seconds since midnight; all timestamps
  are read in one time zone without daylight-saving shifts.
\<close>

type_synonym money = rat

record timestamp =
  ts_year :: int
  ts_month :: int
  ts_day :: int
  ts_secs :: int

text \<open>Day number of a civil date, counted from 1970-01-01 (proleptic Gregorian calendar).\<close>

definition days_from_civil :: "int \<Rightarrow> int \<Rightarrow> int \<Rightarrow> int" where
  "days_from_civil y m d =
     (let y' = (if m \<le> 2 then y - 1 else y);
          era = y' div 400;
          yoe = y' - era * 400;
          doy = (153 * (if m > 2 then m - 3 else m + 9) + 2) div 5 + d - 1;
          doe = yoe * 365 + yoe div 4 - yoe div 100 + doy
      in era * 146097 + doe - 719468)"

definition epoch_secs :: "timestamp \<Rightarrow> int" where
  "epoch_secs t = days_from_civil (ts_year t) (ts_month t) (ts_day t) * 86400 + ts_secs t"

text \<open>
  \<open>DATE_TRUNC('month', t)\<close> is the first instant of the calendar month of \<open>t\<close>; the model
  names that month by its index \<open>year * 12 + (month - 1)\<close>, which orders months as their
  first instants are ordered.
\<close>

definition date_trunc_month :: "timestamp \<Rightarrow> int" where
  "date_trunc_month t = ts_year t * 12 + (ts_month t - 1)"

definition is_leap_year :: "int \<Rightarrow> bool" where
  "is_leap_year y = (y mod 4 = 0 \<and> (y mod 100 \<noteq> 0 \<or> y mod 400 = 0))"

definition days_in_month :: "int \<Rightarrow> int \<Rightarrow> int" where
  "days_in_month y m =
     (if m = 2 then (if is_leap_year y then 29 else 28)
      else if m = 4 \<or> m = 6 \<or> m = 9 \<or> m = 11 then 30 else 31)"

text \<open>
  Adding months to a timestamp keeps the day of the month, cut down to the last day of
  the target month, and keeps the time of day.
\<close>

definition add_months :: "timestamp \<Rightarrow> int \<Rightarrow> timestamp" where
  "add_months t n =
     (let idx = date_trunc_month t + n;
          y = idx div 12;
          m = idx mod 12 + 1
      in t\<lparr>ts_year := y, ts_month := m, ts_day := min (ts_day t) (days_in_month y m)\<rparr>)"

text \<open>An interval has a month part, a day part and a part in seconds.\<close>

record interval =
  iv_months :: int
  iv_days :: int
  iv_secs :: int

definition interval_times :: "interval \<Rightarrow> int \<Rightarrow> interval" where
  "interval_times iv k =
     \<lparr>iv_months = iv_months iv * k, iv_days = iv_days iv * k, iv_secs = iv_secs iv * k\<rparr>"

definition months_iv :: "int \<Rightarrow> interval" where
  "months_iv n = \<lparr>iv_months = n, iv_days = 0, iv_secs = 0\<rparr>"

definition days_iv :: "int \<Rightarrow> interval" where
  "days_iv n = \<lparr>iv_months = 0, iv_days = n, iv_secs = 0\<rparr>"

text \<open>\<open>t - iv\<close> and \<open>t + iv\<close>, as instants in seconds since the epoch.\<close>

definition ts_minus :: "timestamp \<Rightarrow> interval \<Rightarrow> int" where
  "ts_minus t iv = epoch_secs (add_months t (- iv_months iv)) - iv_days iv * 86400 - iv_secs iv"

definition ts_plus :: "timestamp \<Rightarrow> interval \<Rightarrow> int" where
  "ts_plus t iv = epoch_secs (add_months t (iv_months iv)) + iv_days iv * 86400 + iv_secs iv"

text \<open>\<open>CURRENT_DATE\<close> is midnight of the day of \<open>NOW()\<close>.\<close>

definition current_date :: "timestamp \<Rightarrow> timestamp" where
  "current_date now = now\<lparr>ts_secs := 0\<rparr>"

text \<open>\<open>ROUND(x, 2)\<close> on NUMERIC: to two decimals, ties away from zero.\<close>

definition round2 :: "rat \<Rightarrow> rat" where
  "round2 x =
     (if 0 \<le> x then of_int \<lfloor>x * 100 + 1 / 2\<rfloor> / 100
      else - (of_int \<lfloor>- x * 100 + 1 / 2\<rfloor> / 100))"

section \<open>Tables, parameters and errors\<close>

text \<open>
  The columns of \<open>invoices\<close> and \<open>suppliers\<close> that the modelled statements read or write.
  A nullable column is an option. Columns that an \<open>INSERT\<close> does not list are taken to
  have no default and start as \<open>NULL\<close>.
\<close>

record invoice =
  i_id :: nat
  i_company_phone :: string
  i_supplier_name :: string
  i_amount :: money
  i_currency :: string
  i_invoice_date :: "timestamp option"
  i_due_date :: "timestamp option"
  i_tax_id :: "string option"
  i_description :: "string option"
  i_category :: "string option"
  i_status :: string
  i_created_at :: timestamp
  i_updated_at :: "timestamp option"
  i_confirmed_at :: "timestamp option"

record supplier =
  s_name :: string
  s_company_phone :: string
  s_rating :: "int option"
  s_total_invoices :: int
  s_total_amount :: money
  s_last_invoice_date :: "timestamp option"
  s_created_at :: timestamp
  s_updated_at :: "timestamp option"

record store =
  invoices :: "invoice list"
  suppliers :: "supplier list"
  next_invoice_id :: nat

text \<open>The responses that end a request early: status 400, 404 and 500.\<close>

datatype http_error = BadRequest | NotFound | ServerError

text \<open>A value bound to a placeholder \<open>$k\<close> of a statement.\<close>

datatype sqlval = VNull | VText string | VInt int | VNum rat | VTime timestamp

fun text_of :: "sqlval \<Rightarrow> string" where
  "text_of (VText s) = s"
| "text_of _ = []"

fun opt_text_of :: "sqlval \<Rightarrow> string option" where
  "opt_text_of (VText s) = Some s"
| "opt_text_of _ = None"

fun num_of :: "sqlval \<Rightarrow> rat" where
  "num_of (VNum x) = x"
| "num_of (VInt n) = of_int n"
| "num_of _ = 0"

fun time_of :: "sqlval \<Rightarrow> timestamp option" where
  "time_of (VTime t) = Some t"
| "time_of _ = None"

definition opt_val :: "('a \<Rightarrow> sqlval) \<Rightarrow> 'a option \<Rightarrow> sqlval" where
  "opt_val f x = (case x of None \<Rightarrow> VNull | Some v \<Rightarrow> f v)"

datatype db_error = QueryError

text \<open>
  \<open>query(text, params)\<close> of \<open>config/database.js\<close> hands the statement and the values to
  the driver and rethrows its error. A statement that refers to placeholders
  \<open>$1 .. $n\<close> runs only when exactly \<open>n\<close> values are passed; otherwise PostgreSQL
  rejects it and the promise is rejected. The first argument is \<open>n\<close>, the last is the
  statement as a function of the bound values (placeholder \<open>$k\<close> is \<open>params ! (k - 1)\<close>).
\<close>

definition query :: "nat \<Rightarrow> 'p list \<Rightarrow> ('p list \<Rightarrow> 'r) \<Rightarrow> db_error + 'r" where
  "query placeholders params statement =
     (if length params = placeholders then Inr (statement params) else Inl QueryError)"

section \<open>Invoices: creation and change of status\<close>

text \<open>The body of \<open>POST /api/invoices\<close>; an absent key is \<open>None\<close>.\<close>

record invoice_body =
  b_company_phone :: "string option"
  b_supplier_name :: "string option"
  b_amount :: "money option"
  b_currency :: "string option"
  b_invoice_date :: "timestamp option"
  b_due_date :: "timestamp option"
  b_tax_id :: "string option"
  b_description :: "string option"
  b_category :: "string option"
  b_status :: "string option"

text \<open>
  \<open>invoiceSchema.validate\<close>: a required string is present and not empty, the amount is
  present and positive, the currency has three characters and defaults to EUR, the status
  is one of three words and defaults to pending. The result is the body with the
  defaults filled in, or \<open>None\<close> for a validation error.
\<close>

definition required_string :: "string option \<Rightarrow> bool" where
  "required_string x = (case x of None \<Rightarrow> False | Some s \<Rightarrow> s \<noteq> [])"

definition valid_status :: "string \<Rightarrow> bool" where
  "valid_status s = (s \<in> set [''pending'', ''confirmed'', ''paid''])"

definition invoiceSchema_validate :: "invoice_body \<Rightarrow> invoice_body option" where
  "invoiceSchema_validate b =
     (if required_string (b_company_phone b) \<and> required_string (b_supplier_name b)
         \<and> (case b_amount b of None \<Rightarrow> False | Some a \<Rightarrow> 0 < a)
         \<and> (case b_currency b of None \<Rightarrow> True | Some c \<Rightarrow> length c = 3)
         \<and> (case b_status b of None \<Rightarrow> True | Some s \<Rightarrow> valid_status s)
      then Some (b\<lparr>b_currency := Some (case b_currency b of None \<Rightarrow> ''EUR'' | Some c \<Rightarrow> c),
                   b_status := Some (case b_status b of None \<Rightarrow> ''pending'' | Some s \<Rightarrow> s)\<rparr>)
      else None)"

text \<open>
  \<^verbatim>\<open>INSERT INTO invoices (company_phone, supplier_name, amount, currency, invoice_date,
  due_date, tax_id, description, category, status, created_at)
  VALUES ($1, ..., $10, NOW()) RETURNING *\<close>
\<close>

definition insert_invoice_sql :: "store \<Rightarrow> timestamp \<Rightarrow> sqlval list \<Rightarrow> store \<times> invoice" where
  "insert_invoice_sql st now ps =
     (let row = \<lparr>i_id = next_invoice_id st,
                 i_company_phone = text_of (ps ! 0),
                 i_supplier_name = text_of (ps ! 1),
                 i_amount = num_of (ps ! 2),
                 i_currency = text_of (ps ! 3),
                 i_invoice_date = time_of (ps ! 4),
                 i_due_date = time_of (ps ! 5),
                 i_tax_id = opt_text_of (ps ! 6),
                 i_description = opt_text_of (ps ! 7),
                 i_category = opt_text_of (ps ! 8),
                 i_status = text_of (ps ! 9),
                 i_created_at = now,
                 i_updated_at = None,
                 i_confirmed_at = None\<rparr>
      in (st\<lparr>invoices := invoices st @ [row], next_invoice_id := Suc (next_invoice_id st)\<rparr>,
          row))"

text \<open>
  \<^verbatim>\<open>INSERT INTO suppliers (name, company_phone, total_invoices, total_amount,
  last_invoice_date, created_at) VALUES ($1, $2, 1, $3, $4, NOW())
  ON CONFLICT (name, company_phone) DO UPDATE SET
  total_invoices = suppliers.total_invoices + 1,
  total_amount = suppliers.total_amount + $3,
  last_invoice_date = $4, updated_at = NOW()\<close>
\<close>

definition supplier_conflict :: "sqlval list \<Rightarrow> supplier \<Rightarrow> bool" where
  "supplier_conflict ps s = (VText (s_name s) = ps ! 0 \<and> VText (s_company_phone s) = ps ! 1)"

definition upsert_supplier_sql :: "store \<Rightarrow> timestamp \<Rightarrow> sqlval list \<Rightarrow> store" where
  "upsert_supplier_sql st now ps =
     (if \<exists>s \<in> set (suppliers st). supplier_conflict ps s
      then st\<lparr>suppliers :=
             map (\<lambda>s. if supplier_conflict ps s
                       then s\<lparr>s_total_invoices := s_total_invoices s + 1,
                              s_total_amount := s_total_amount s + num_of (ps ! 2),
                              s_last_invoice_date := time_of (ps ! 3),
                              s_updated_at := Some now\<rparr>
                       else s) (suppliers st)\<rparr>
      else st\<lparr>suppliers := suppliers st @
             [\<lparr>s_name = text_of (ps ! 0),
               s_company_phone = text_of (ps ! 1),
               s_rating = None,
               s_total_invoices = 1,
               s_total_amount = num_of (ps ! 2),
               s_last_invoice_date = time_of (ps ! 3),
               s_created_at = now,
               s_updated_at = None\<rparr>]\<rparr>)"

text \<open>
  \<open>transaction(callback)\<close>: \<open>BEGIN\<close>, the callback, \<open>COMMIT\<close>; an error in the callback
  rolls back and is rethrown, so an error leaves the store as it was before.
\<close>

definition transaction :: "store \<Rightarrow> (store \<Rightarrow> db_error + (store \<times> 'a)) \<Rightarrow> db_error + (store \<times> 'a)" where
  "transaction st callback = (case callback st of Inl e \<Rightarrow> Inl e | Inr r \<Rightarrow> Inr r)"

text \<open>
  \<open>POST /api/invoices\<close>. The last value of the second statement is
  \<open>value.invoice_date || new Date()\<close>. An error response leaves the store unchanged.
\<close>

definition create_invoice :: "store \<Rightarrow> timestamp \<Rightarrow> invoice_body \<Rightarrow> http_error + (store \<times> invoice)" where
  "create_invoice st now body =
     (case invoiceSchema_validate body of
        None \<Rightarrow> Inl BadRequest
      | Some v \<Rightarrow>
          (case transaction st (\<lambda>client.
                  case query 10 [opt_val VText (b_company_phone v),
                                 opt_val VText (b_supplier_name v),
                                 opt_val VNum (b_amount v),
                                 opt_val VText (b_currency v),
                                 opt_val VTime (b_invoice_date v),
                                 opt_val VTime (b_due_date v),
                                 opt_val VText (b_tax_id v),
                                 opt_val VText (b_description v),
                                 opt_val VText (b_category v),
                                 opt_val VText (b_status v)]
                         (insert_invoice_sql client now) of
                    Inl e \<Rightarrow> Inl e
                  | Inr (client', row) \<Rightarrow>
                      (case query 4 [opt_val VText (b_supplier_name v),
                                     opt_val VText (b_company_phone v),
                                     opt_val VNum (b_amount v),
                                     VTime (case b_invoice_date v of Some d \<Rightarrow> d | None \<Rightarrow> now)]
                              (upsert_supplier_sql client' now) of
                         Inl e \<Rightarrow> Inl e
                       | Inr client'' \<Rightarrow> Inr (client'', row))) of
             Inl e \<Rightarrow> Inl ServerError
           | Inr r \<Rightarrow> Inr r))"

text \<open>
  \<^verbatim>\<open>UPDATE invoices SET status = $1,
  confirmed_at = CASE WHEN $1 = 'confirmed' THEN NOW() ELSE confirmed_at END,
  updated_at = NOW() WHERE id = $2 RETURNING *\<close>
  The statement is taken as it reads, with \<open>$1\<close> a text both as the new status and in
  the comparison (the column types are not part of the sources).
\<close>

definition update_status_sql :: "store \<Rightarrow> timestamp \<Rightarrow> sqlval list \<Rightarrow> store \<times> invoice list" where
  "update_status_sql st now ps =
     (let rows = map (\<lambda>i. if VInt (int (i_id i)) = ps ! 1
                           then i\<lparr>i_status := text_of (ps ! 0),
                                  i_confirmed_at :=
                                    (if ps ! 0 = VText ''confirmed'' then Some now
                                     else i_confirmed_at i),
                                  i_updated_at := Some now\<rparr>
                           else i) (invoices st)
      in (st\<lparr>invoices := rows\<rparr>, filter (\<lambda>i. VInt (int (i_id i)) = ps ! 1) rows))"

text \<open>\<open>PATCH /api/invoices/:id/status\<close>.\<close>

definition change_status :: "store \<Rightarrow> timestamp \<Rightarrow> nat \<Rightarrow> string \<Rightarrow> http_error + (store \<times> invoice)" where
  "change_status st now invoice_id status =
     (if \<not> valid_status status then Inl BadRequest
      else case query 2 [VText status, VInt (int invoice_id)] (update_status_sql st now) of
             Inl e \<Rightarrow> Inl ServerError
           | Inr (st', rows) \<Rightarrow>
               (case rows of [] \<Rightarrow> Inl NotFound | row # _ \<Rightarrow> Inr (st', row)))"

definition supplier_rows :: "store \<Rightarrow> string \<Rightarrow> string \<Rightarrow> supplier list" where
  "supplier_rows st name phone =
     filter (\<lambda>s. s_name s = name \<and> s_company_phone s = phone) (suppliers st)"

section \<open>Supplier ranking: the importance score\<close>

text \<open>
  \<open>GET /api/suppliers/analytics/top\<close> orders the suppliers of a company by
  \<^verbatim>\<open>(SUM(i.amount) / 1000.0) * 0.4 + COUNT(*) * 0.3 +
  (30 - LEAST(30, EXTRACT(DAYS FROM (NOW() - MAX(i.invoice_date))))) * 0.3\<close>.
  The three arguments are the aggregates of one supplier's group of invoices: the sum of
  the amounts, the number of invoices, and the whole days since the latest invoice date.
\<close>

definition importance_score :: "money \<Rightarrow> nat \<Rightarrow> int \<Rightarrow> rat" where
  "importance_score total_amount invoice_count days_since_last =
     (total_amount / 1000) * (4 / 10) + of_nat invoice_count * (3 / 10)
       + (30 - of_int (min 30 days_since_last)) * (3 / 10)"

section \<open>Analytics: dashboard metrics\<close>

text \<open>
  JavaScript's \<open>if (x)\<close> on a query-string value: absent and empty are both false.
\<close>

definition truthy :: "string option \<Rightarrow> bool" where
  "truthy x = (case x of None \<Rightarrow> False | Some s \<Rightarrow> s \<noteq> [])"

text \<open>
  \<open>s.replace(pat, rep)\<close> with a string pattern replaces the first occurrence of \<open>pat\<close>
  and nothing else.
\<close>

fun replace_first :: "string \<Rightarrow> string \<Rightarrow> string \<Rightarrow> string" where
  "replace_first pat rep [] = (if pat = [] then rep else [])"
| "replace_first pat rep (c # cs) =
     (if take (length pat) (c # cs) = pat then rep @ drop (length pat) (c # cs)
      else c # replace_first pat rep cs)"

text \<open>
  The text between the quotes of the two interval literals of \<open>previous_period_stats\<close>:
  \<^verbatim>\<open>period.replace('d', ' days').replace('y', ' year')\<close>.
\<close>

definition interval_text :: "string \<Rightarrow> string" where
  "interval_text period = replace_first ''y'' '' year'' (replace_first ''d'' '' days'' period)"

text \<open>The \<open>switch (period)\<close> that chooses \<open>dateFilter\<close>, as the interval it subtracts.\<close>

definition dateFilter :: "string \<Rightarrow> interval" where
  "dateFilter period =
     (if period = ''7d'' then days_iv 7
      else if period = ''30d'' then days_iv 30
      else if period = ''90d'' then days_iv 90
      else if period = ''1y'' then months_iv 12
      else days_iv 30)"

record metrics =
  m_total_invoices :: int
  m_total_amount :: money
  m_avg_amount :: money
  m_unique_suppliers :: int
  m_pending_invoices :: int
  m_confirmed_invoices :: int
  m_paid_invoices :: int
  m_overdue_invoices :: int
  m_prev_total_invoices :: int
  m_prev_total_amount :: money
  m_amount_change_percent :: rat
  m_invoices_change_percent :: rat

definition sum_amount :: "invoice list \<Rightarrow> money" where
  "sum_amount rows = sum_list (map i_amount rows)"

definition count_rows :: "'a list \<Rightarrow> int" where
  "count_rows rows = int (length rows)"

text \<open>\<open>due_date < CURRENT_DATE AND status != 'paid'\<close>; a \<open>NULL\<close> due date is not overdue.\<close>

definition overdue :: "timestamp \<Rightarrow> invoice \<Rightarrow> bool" where
  "overdue now i =
     (case i_due_date i of
        None \<Rightarrow> False
      | Some d \<Rightarrow> epoch_secs d < epoch_secs (current_date now) \<and> i_status i \<noteq> ''paid'')"

text \<open>
  The metrics statement of \<open>GET /api/analytics/dashboard\<close>: the CTEs \<open>period_stats\<close> and
  \<open>previous_period_stats\<close> and the two \<open>CASE\<close> expressions over their cross join.
  \<open>cur\<close> is the interval of \<open>dateFilter\<close>, \<open>prev\<close> the value of the interpolated literal.
\<close>

definition metrics_sql :: "store \<Rightarrow> timestamp \<Rightarrow> interval \<Rightarrow> interval \<Rightarrow> sqlval list \<Rightarrow> metrics" where
  "metrics_sql st now cur prev ps =
     (let period_stats =
            filter (\<lambda>i. VText (i_company_phone i) = ps ! 0
                         \<and> ts_minus now cur \<le> epoch_secs (i_created_at i)) (invoices st);
          previous_period_stats =
            filter (\<lambda>i. VText (i_company_phone i) = ps ! 0
                         \<and> epoch_secs (i_created_at i) < ts_minus now prev
                         \<and> ts_minus now (interval_times prev 2) \<le> epoch_secs (i_created_at i))
                   (invoices st);
          total_invoices = count_rows period_stats;
          total_amount = sum_amount period_stats;
          prev_total_invoices = count_rows previous_period_stats;
          prev_total_amount = sum_amount previous_period_stats
      in \<lparr>m_total_invoices = total_invoices,
          m_total_amount = total_amount,
          m_avg_amount = (if period_stats = [] then 0 else total_amount / of_int total_invoices),
          m_unique_suppliers = count_rows (remdups (map i_supplier_name period_stats)),
          m_pending_invoices = count_rows (filter (\<lambda>i. i_status i = ''pending'') period_stats),
          m_confirmed_invoices = count_rows (filter (\<lambda>i. i_status i = ''confirmed'') period_stats),
          m_paid_invoices = count_rows (filter (\<lambda>i. i_status i = ''paid'') period_stats),
          m_overdue_invoices = count_rows (filter (overdue now) period_stats),
          m_prev_total_invoices = prev_total_invoices,
          m_prev_total_amount = prev_total_amount,
          m_amount_change_percent =
            (if prev_total_amount > 0
             then round2 ((total_amount - prev_total_amount) / prev_total_amount * 100)
             else 0),
          m_invoices_change_percent =
            (if prev_total_invoices > 0
             then round2 (of_int (total_invoices - prev_total_invoices)
                            / of_int prev_total_invoices * 100)
             else 0)\<rparr>)"

text \<open>
  The period is spliced into the text of the statement between two quote characters. A
  period that itself contains a quote character ends the literal early and changes the
  statement; the model of the route below describes the requests whose period has none.
\<close>

definition quote_free :: "string \<Rightarrow> bool" where
  "quote_free s = (CHR 0x27 \<notin> set s)"

text \<open>
  PostgreSQL keeps a timestamp between 4714-11-24 BC and the end of the year 294276
  (here in seconds since 1970), the months and the days of an interval in 32 bits and
  its time part in 64 bits of microseconds. \<open>NOW() - iv\<close> subtracts the months, then the
  days, then the time, and raises an error as soon as a step leaves the range of
  timestamps; \<open>iv * 2\<close> raises an error when a field of the product leaves its range.
\<close>

definition timestamp_in_range :: "int \<Rightarrow> bool" where
  "timestamp_in_range e = (- 210866803200 \<le> e \<and> e < 9224318016000)"

definition interval_in_range :: "interval \<Rightarrow> bool" where
  "interval_in_range iv =
     (- 2147483648 \<le> iv_months iv \<and> iv_months iv \<le> 2147483647
      \<and> - 2147483648 \<le> iv_days iv \<and> iv_days iv \<le> 2147483647
      \<and> - 9223372036854775808 \<le> iv_secs iv * 1000000
      \<and> iv_secs iv * 1000000 \<le> 9223372036854775807)"

definition ts_minus_in_range :: "timestamp \<Rightarrow> interval \<Rightarrow> bool" where
  "ts_minus_in_range t iv =
     (let a = epoch_secs (add_months t (- iv_months iv));
          b = a - iv_days iv * 86400;
          c = b - iv_secs iv
      in timestamp_in_range a \<and> timestamp_in_range b \<and> timestamp_in_range c)"

text \<open>
  The three bounds that the metrics statement computes: \<open>NOW() - cur\<close> of the current
  period, \<open>NOW() - prev\<close> and \<open>NOW() - prev * 2\<close> of the previous one.
\<close>

definition windows_in_range :: "timestamp \<Rightarrow> interval \<Rightarrow> interval \<Rightarrow> bool" where
  "windows_in_range now cur prev =
     (ts_minus_in_range now cur \<and> ts_minus_in_range now prev
      \<and> interval_in_range (interval_times prev 2)
      \<and> ts_minus_in_range now (interval_times prev 2))"

text \<open>
  \<open>GET /api/analytics/dashboard\<close>, restricted to its metrics statement (the statements
  for the top categories, the top suppliers and the monthly trend contain \<open>dateFilter\<close>
  only and add nothing to the cases below). \<open>interval_in\<close> is PostgreSQL's reading of an
  interval literal, \<open>None\<close> when it rejects the text. A rejected literal fails the
  statement, and so does a bound or a product out of range; the handler answers every
  failure with status 500.
\<close>

definition dashboard ::
  "(string \<Rightarrow> interval option) \<Rightarrow> store \<Rightarrow> timestamp \<Rightarrow> string option \<Rightarrow> string option
     \<Rightarrow> http_error + metrics" where
  "dashboard interval_in st now company_phone period_param =
     (let period = (case period_param of None \<Rightarrow> ''30d'' | Some p \<Rightarrow> p) in
      if \<not> truthy company_phone then Inl BadRequest
      else case (case interval_in (interval_text period) of
                   None \<Rightarrow> Inl QueryError
                 | Some prev \<Rightarrow>
                     if windows_in_range now (dateFilter period) prev
                     then query 1 [opt_val VText company_phone]
                            (metrics_sql st now (dateFilter period) prev)
                     else Inl QueryError) of
             Inl e \<Rightarrow> Inl ServerError
           | Inr metricsResult \<Rightarrow> Inr metricsResult)"

text \<open>
  A reader for the interval literals of the form \<open>integer, one space, unit\<close>, whose value
  fits the fields of an interval. PostgreSQL
  reads every text that this function reads, with the same value; it is used below at
  \<open>1 year\<close>, \<open>2 year\<close>, \<open>3400 year\<close> and \<open>7000 year\<close>, which PostgreSQL reads, and at
  \<open>30 da years\<close> and \<open>abc\<close>, which it rejects for their unknown unit words.
\<close>

definition is_digit :: "char \<Rightarrow> bool" where
  "is_digit c = (c \<in> set ''0123456789'')"

definition digits_value :: "string \<Rightarrow> int" where
  "digits_value ds = foldl (\<lambda>acc c. acc * 10 + (of_char c - 48)) 0 ds"

definition interval_value :: "interval \<Rightarrow> interval option" where
  "interval_value iv = (if interval_in_range iv then Some iv else None)"

definition simple_interval_in :: "string \<Rightarrow> interval option" where
  "simple_interval_in s =
     (let num = takeWhile is_digit s; rest = dropWhile is_digit s; n = digits_value num in
      if num = [] then None
      else case rest of
             [] \<Rightarrow> None
           | c # unit \<Rightarrow>
               if c \<noteq> CHR '' '' then None
               else if unit \<in> set [''day'', ''days''] then interval_value (days_iv n)
               else if unit \<in> set [''month'', ''months'', ''mon'', ''mons'']
               then interval_value (months_iv n)
               else if unit \<in> set [''year'', ''years''] then interval_value (months_iv (12 * n))
               else None)"

section \<open>Analytics: growth analysis of the trends\<close>

text \<open>
  \<open>GROUP BY DATE_TRUNC('month', col)\<close> over rows whose \<open>col\<close> is not \<open>NULL\<close>, with
  \<open>ORDER BY month\<close>: one group per calendar month that has a row, in ascending order.
\<close>

definition row_month :: "(invoice \<Rightarrow> timestamp option) \<Rightarrow> invoice \<Rightarrow> int option" where
  "row_month col i = map_option date_trunc_month (col i)"

definition group_by_month :: "(invoice \<Rightarrow> timestamp option) \<Rightarrow> invoice list \<Rightarrow> (int \<times> invoice list) list" where
  "group_by_month col rows =
     map (\<lambda>m. (m, filter (\<lambda>i. row_month col i = Some m) rows))
       (sort (remdups (List.map_filter (row_month col) rows)))"

text \<open>\<open>col >= NOW() - iv\<close> on a nullable column: false for \<open>NULL\<close>.\<close>

definition since :: "timestamp \<Rightarrow> interval \<Rightarrow> timestamp option \<Rightarrow> bool" where
  "since now iv col = (case col of None \<Rightarrow> False | Some d \<Rightarrow> ts_minus now iv \<le> epoch_secs d)"

text \<open>
  The CTE \<open>monthly_data\<close> of the growth analysis: month and \<open>SUM(amount)\<close> per calendar
  month of \<open>invoice_date\<close>, for the invoices of the company dated in the last 12 months.
\<close>

definition monthly_data :: "store \<Rightarrow> timestamp \<Rightarrow> sqlval list \<Rightarrow> (int \<times> money) list" where
  "monthly_data st now ps =
     map (\<lambda>(m, rows). (m, sum_amount rows))
       (group_by_month i_invoice_date
          (filter (\<lambda>i. VText (i_company_phone i) = ps ! 0
                       \<and> since now (months_iv 12) (i_invoice_date i)) (invoices st)))"

record growth_row =
  g_month :: int
  g_monthly_amount :: money
  g_previous_month :: "money option"
  g_growth_rate :: rat

text \<open>
  \<open>LAG(monthly_amount) OVER (ORDER BY month)\<close> is the amount of the row before in month
  order, \<open>NULL\<close> on the first row; a comparison with \<open>NULL\<close> is not true, so the \<open>CASE\<close>
  takes its \<open>ELSE\<close> there.
\<close>

fun with_lag :: "money option \<Rightarrow> (int \<times> money) list \<Rightarrow> growth_row list" where
  "with_lag lag [] = []"
| "with_lag lag ((m, a) # rest) =
     \<lparr>g_month = m, g_monthly_amount = a, g_previous_month = lag,
      g_growth_rate = (case lag of
                         None \<Rightarrow> 0
                       | Some p \<Rightarrow> if p > 0 then round2 ((a - p) / p * 100) else 0)\<rparr>
     # with_lag (Some a) rest"

text \<open>The statement \<open>growthAnalysis\<close>: the rows above, \<open>ORDER BY month DESC LIMIT 6\<close>.\<close>

definition growth_analysis_sql :: "store \<Rightarrow> timestamp \<Rightarrow> sqlval list \<Rightarrow> growth_row list" where
  "growth_analysis_sql st now ps = take 6 (rev (with_lag None (monthly_data st now ps)))"

text \<open>
  \<open>GET /api/analytics/trends\<close>, restricted to \<open>growth_analysis\<close> (the monthly and the
  weekly statement are separate and do not feed it).
\<close>

definition trends_growth_analysis ::
  "store \<Rightarrow> timestamp \<Rightarrow> string option \<Rightarrow> http_error + growth_row list" where
  "trends_growth_analysis st now company_phone =
     (if \<not> truthy company_phone then Inl BadRequest
      else case query 1 [opt_val VText company_phone] (growth_analysis_sql st now) of
             Inl e \<Rightarrow> Inl ServerError
           | Inr growthAnalysis \<Rightarrow> Inr growthAnalysis)"

section \<open>Analytics: predictions\<close>

text \<open>\<open>MAX\<close> and \<open>MIN\<close> over the values of a group that has a row.\<close>

definition sql_max :: "rat list \<Rightarrow> rat" where
  "sql_max xs = fold max (tl xs) (hd xs)"

definition sql_min :: "rat list \<Rightarrow> rat" where
  "sql_min xs = fold min (tl xs) (hd xs)"

text \<open>
  The CTE \<open>growth_rate\<close> of \<open>GET /api/analytics/predictions\<close>. Its subquery keeps the
  two most recent months that have an invoice of the company dated in the last 6 months
  (\<open>ORDER BY month DESC LIMIT 2\<close>);
  \<^verbatim>\<open>CASE WHEN COUNT(*) >= 2 THEN (MAX(monthly_total) - MIN(monthly_total)) /
  MIN(monthly_total) * 100 ELSE 0 END\<close> is taken over these rows. A division by zero
  fails the statement.
\<close>

definition growth_rate_cte :: "store \<Rightarrow> timestamp \<Rightarrow> sqlval list \<Rightarrow> db_error + rat" where
  "growth_rate_cte st now ps =
     (let sub = take 2 (rev (map (\<lambda>(m, rows). (m, sum_amount rows))
                  (group_by_month i_invoice_date
                     (filter (\<lambda>i. VText (i_company_phone i) = ps ! 0
                                  \<and> since now (months_iv 6) (i_invoice_date i))
                        (invoices st)))));
          monthly_total = map snd sub
      in if 2 \<le> length sub
         then (if sql_min monthly_total = 0 then Inl QueryError
               else Inr ((sql_max monthly_total - sql_min monthly_total)
                           / sql_min monthly_total * 100))
         else Inr 0)"

record predictions =
  p_next_month_predicted_amount :: "rat option"
  p_next_month_predicted_invoices :: int
  p_confidence_level :: string
  p_based_on_months :: int

text \<open>
  The statement \<open>historicalData\<close>, without the seasonal patterns: \<open>recent_trend\<close> is the
  average amount and the count over the last 3 months, the predicted amount is
  \<^verbatim>\<open>ROUND(recent_avg * recent_count * (1 + monthly_growth_rate/100), 2)\<close> (\<open>NULL\<close> when
  there is no recent invoice). The cross join with \<open>monthly_avg\<close> leaves no row, and so
  no predictions, when the company has no invoice dated in the last 12 months.
\<close>

definition historicalData_sql :: "store \<Rightarrow> timestamp \<Rightarrow> sqlval list \<Rightarrow> db_error + predictions option" where
  "historicalData_sql st now ps =
     (let monthly_avg = filter (\<lambda>i. VText (i_company_phone i) = ps ! 0
                                  \<and> since now (months_iv 12) (i_invoice_date i)) (invoices st);
          recent = filter (\<lambda>i. VText (i_company_phone i) = ps ! 0
                                  \<and> since now (months_iv 3) (i_invoice_date i)) (invoices st);
          recent_avg = (if recent = [] then None
                        else Some (sum_amount recent / of_int (count_rows recent)));
          recent_count = count_rows recent
      in case growth_rate_cte st now ps of
           Inl e \<Rightarrow> Inl e
         | Inr monthly_growth_rate \<Rightarrow>
             Inr (if monthly_avg = [] then None
                  else Some
                    \<lparr>p_next_month_predicted_amount =
                       map_option (\<lambda>avg. round2 (avg * of_int recent_count
                                                 * (1 + monthly_growth_rate / 100))) recent_avg,
                     p_next_month_predicted_invoices = \<lceil>of_int recent_count * (11 / 10 :: rat)\<rceil>,
                     p_confidence_level =
                       (if 10 \<le> recent_count then ''High''
                        else if 5 \<le> recent_count then ''Medium'' else ''Low''),
                     p_based_on_months = 3\<rparr>))"

text \<open>
  \<open>GET /api/analytics/predictions\<close>, restricted to the predictions object
  (\<open>historicalData.rows[0]?.predictions || {}\<close>; \<open>None\<close> is the empty object).
\<close>

definition predictions_route ::
  "store \<Rightarrow> timestamp \<Rightarrow> string option \<Rightarrow> http_error + predictions option" where
  "predictions_route st now company_phone =
     (if \<not> truthy company_phone then Inl BadRequest
      else case query 1 [opt_val VText company_phone] (historicalData_sql st now) of
             Inl e \<Rightarrow> Inl ServerError
           | Inr (Inl e) \<Rightarrow> Inl ServerError
           | Inr (Inr historicalData) \<Rightarrow> Inr historicalData)"

section \<open>Analytics: cash flow\<close>

record cashflow_month =
  cf_month :: int
  cf_pending_payments :: money
  cf_completed_payments :: money
  cf_overdue_count :: int
  cf_overdue_amount :: money

record upcoming_payment =
  up_due_date :: "timestamp option"
  up_supplier_name :: string
  up_amount :: money
  up_status :: string
  up_urgency :: string

record cashflow_data =
  cd_monthly_cashflow :: "cashflow_month list option"
  cd_upcoming_payments :: "upcoming_payment list option"

text \<open>\<open>json_agg\<close> over no rows is \<open>NULL\<close>.\<close>

definition json_agg :: "'a list \<Rightarrow> 'a list option" where
  "json_agg rows = (if rows = [] then None else Some rows)"

text \<open>\<open>col <= NOW() + iv\<close> on a nullable column.\<close>

definition until :: "timestamp \<Rightarrow> interval \<Rightarrow> timestamp option \<Rightarrow> bool" where
  "until now iv col = (case col of None \<Rightarrow> False | Some d \<Rightarrow> epoch_secs d \<le> ts_plus now iv)"

text \<open>
  The CTE \<open>monthly_cashflow\<close>: the invoices of company \<open>$1\<close> whose due date lies between
  \<open>NOW() - months\<close> and \<open>NOW() + 3 months\<close>, grouped by the calendar month of the due
  date. A \<open>SUM ... FILTER\<close> over no row is \<open>NULL\<close> and is read through \<open>COALESCE(_, 0)\<close>.
\<close>

definition monthly_cashflow_cte :: "store \<Rightarrow> timestamp \<Rightarrow> int \<Rightarrow> sqlval list \<Rightarrow> cashflow_month list" where
  "monthly_cashflow_cte st now months ps =
     map (\<lambda>(m, rows).
            \<lparr>cf_month = m,
             cf_pending_payments = sum_amount (filter (\<lambda>i. i_status i = ''confirmed'') rows),
             cf_completed_payments = sum_amount (filter (\<lambda>i. i_status i = ''paid'') rows),
             cf_overdue_count = count_rows (filter (overdue now) rows),
             cf_overdue_amount = sum_amount (filter (overdue now) rows)\<rparr>)
       (group_by_month i_due_date
          (filter (\<lambda>i. VText (i_company_phone i) = ps ! 0
                       \<and> since now (months_iv months) (i_due_date i)
                       \<and> until now (months_iv 3) (i_due_date i)) (invoices st)))"

text \<open>The \<open>CASE\<close> that tags an obligation by its due date.\<close>

definition urgency :: "timestamp \<Rightarrow> timestamp \<Rightarrow> string" where
  "urgency now due =
     (if epoch_secs due < epoch_secs (current_date now) then ''overdue''
      else if epoch_secs due \<le> ts_plus (current_date now) (days_iv 7) then ''due_this_week''
      else if epoch_secs due \<le> ts_plus (current_date now) (days_iv 30) then ''due_this_month''
      else ''future'')"

text \<open>
  The CTE \<open>upcoming_payments\<close>: \<open>ORDER BY due_date ASC LIMIT 20\<close> (rows with the same due
  date keep their table order here; PostgreSQL leaves their order open).
\<close>

definition upcoming_payments_cte :: "store \<Rightarrow> timestamp \<Rightarrow> sqlval list \<Rightarrow> upcoming_payment list" where
  "upcoming_payments_cte st now ps =
     map (\<lambda>i. \<lparr>up_due_date = i_due_date i, up_supplier_name = i_supplier_name i,
                up_amount = i_amount i, up_status = i_status i,
                up_urgency = (case i_due_date i of None \<Rightarrow> ''future'' | Some d \<Rightarrow> urgency now d)\<rparr>)
       (take 20
          (sort_key (\<lambda>i. case i_due_date i of None \<Rightarrow> 0 | Some d \<Rightarrow> epoch_secs d)
             (filter (\<lambda>i. VText (i_company_phone i) = ps ! 0
                          \<and> i_status i \<in> set [''confirmed'', ''pending'']
                          \<and> since (current_date now) (days_iv 30) (i_due_date i))
                (invoices st))))"

definition cashflow_sql :: "store \<Rightarrow> timestamp \<Rightarrow> int \<Rightarrow> sqlval list \<Rightarrow> cashflow_data" where
  "cashflow_sql st now months ps =
     \<lparr>cd_monthly_cashflow = json_agg (monthly_cashflow_cte st now months ps),
      cd_upcoming_payments = json_agg (upcoming_payments_cte st now ps)\<rparr>"

text \<open>
  \<open>GET /api/analytics/cashflow\<close>. \<open>months\<close> defaults to 6 and is read with \<open>parseInt\<close>
  (here: already an integer). The statement refers to \<open>$1\<close>, and the call is
  \<open>query(`...`)\<close> with no array of values.
\<close>

definition cashflow ::
  "store \<Rightarrow> timestamp \<Rightarrow> string option \<Rightarrow> int option \<Rightarrow> http_error + cashflow_data" where
  "cashflow st now company_phone months_param =
     (let months = (case months_param of None \<Rightarrow> 6 | Some n \<Rightarrow> n) in
      if \<not> truthy company_phone then Inl BadRequest
      else case query 1 [] (cashflow_sql st now months) of
             Inl e \<Rightarrow> Inl ServerError
           | Inr cashflowData \<Rightarrow> Inr cashflowData)"

section \<open>Invoices: the listing\<close>

text \<open>
  The query string of \<open>GET /api/invoices\<close>. The two dates and the two numbers are taken
  as already read; a text that PostgreSQL cannot read as a date, or that \<open>parseInt\<close>
  cannot read, is outside this type.
\<close>

record list_query =
  q_company_phone :: "string option"
  q_status :: "string option"
  q_category :: "string option"
  q_supplier :: "string option"
  q_date_from :: "timestamp option"
  q_date_to :: "timestamp option"
  q_limit :: "int option"
  q_offset :: "int option"
  q_sort_by :: "string option"
  q_sort_order :: "string option"

text \<open>
  The handler appends one condition to \<open>baseQuery\<close> and one value to \<open>params\<close> for each
  filter that is present. A condition carries the number of its placeholder.
\<close>

datatype cond =
    CompanyEq nat
  | StatusEq nat
  | CategoryILike nat
  | SupplierILike nat
  | DateFrom nat
  | DateTo nat

definition add_cond :: "(nat \<Rightarrow> cond) \<Rightarrow> sqlval \<Rightarrow> cond list \<times> sqlval list \<Rightarrow> cond list \<times> sqlval list" where
  "add_cond mk v q = (case q of (conds, params) \<Rightarrow> (conds @ [mk (Suc (length params))], params @ [v]))"

definition build_filters :: "list_query \<Rightarrow> cond list \<times> sqlval list" where
  "build_filters q =
     (let b0 = ([], []);
          b1 = (if truthy (q_company_phone q)
                then add_cond CompanyEq (opt_val VText (q_company_phone q)) b0 else b0);
          b2 = (if truthy (q_status q)
                then add_cond StatusEq (opt_val VText (q_status q)) b1 else b1);
          b3 = (if truthy (q_category q)
                then add_cond CategoryILike
                       (opt_val (\<lambda>c. VText (''%'' @ c @ ''%'')) (q_category q)) b2 else b2);
          b4 = (if truthy (q_supplier q)
                then add_cond SupplierILike
                       (opt_val (\<lambda>c. VText (''%'' @ c @ ''%'')) (q_supplier q)) b3 else b3);
          b5 = (case q_date_from q of None \<Rightarrow> b4 | Some d \<Rightarrow> add_cond DateFrom (VTime d) b4);
          b6 = (case q_date_to q of None \<Rightarrow> b5 | Some d \<Rightarrow> add_cond DateTo (VTime d) b5)
      in b6)"

text \<open>
  One condition of the \<open>WHERE\<close> clause on a row of \<open>invoices\<close>. \<open>ilike text pattern\<close> is
  PostgreSQL's \<open>text ILIKE pattern\<close>; a comparison with \<open>NULL\<close> is not true.
\<close>

fun eval_cond :: "(string \<Rightarrow> string \<Rightarrow> bool) \<Rightarrow> sqlval list \<Rightarrow> cond \<Rightarrow> invoice \<Rightarrow> bool" where
  "eval_cond ilike ps (CompanyEq k) i = (VText (i_company_phone i) = ps ! (k - 1))"
| "eval_cond ilike ps (StatusEq k) i = (VText (i_status i) = ps ! (k - 1))"
| "eval_cond ilike ps (CategoryILike k) i =
     (case (i_category i, ps ! (k - 1)) of (Some c, VText pat) \<Rightarrow> ilike c pat | _ \<Rightarrow> False)"
| "eval_cond ilike ps (SupplierILike k) i =
     (case ps ! (k - 1) of VText pat \<Rightarrow> ilike (i_supplier_name i) pat | _ \<Rightarrow> False)"
| "eval_cond ilike ps (DateFrom k) i =
     (case (i_invoice_date i, ps ! (k - 1)) of
        (Some d, VTime t) \<Rightarrow> epoch_secs t \<le> epoch_secs d | _ \<Rightarrow> False)"
| "eval_cond ilike ps (DateTo k) i =
     (case (i_invoice_date i, ps ! (k - 1)) of
        (Some d, VTime t) \<Rightarrow> epoch_secs d \<le> epoch_secs t | _ \<Rightarrow> False)"

text \<open>
  \<^verbatim>\<open>FROM invoices i LEFT JOIN suppliers s ON i.supplier_name = s.name AND
  i.company_phone = s.company_phone\<close>, with the selected columns \<open>i.*\<close>, \<open>s.name\<close> and
  \<open>s.rating\<close>.
\<close>

record list_row =
  lr_invoice :: invoice
  lr_supplier_full_name :: "string option"
  lr_supplier_rating :: "int option"

definition left_join_suppliers :: "supplier list \<Rightarrow> invoice list \<Rightarrow> list_row list" where
  "left_join_suppliers sups invs =
     concat (map (\<lambda>i.
        case filter (\<lambda>s. i_supplier_name i = s_name s \<and> i_company_phone i = s_company_phone s) sups of
          [] \<Rightarrow> [\<lparr>lr_invoice = i, lr_supplier_full_name = None, lr_supplier_rating = None\<rparr>]
        | ms \<Rightarrow> map (\<lambda>s. \<lparr>lr_invoice = i, lr_supplier_full_name = Some (s_name s),
                             lr_supplier_rating = s_rating s\<rparr>) ms) invs)"

definition where_rows ::
  "(string \<Rightarrow> string \<Rightarrow> bool) \<Rightarrow> store \<Rightarrow> cond list \<Rightarrow> sqlval list \<Rightarrow> list_row list" where
  "where_rows ilike st conds ps =
     filter (\<lambda>r. list_all (\<lambda>c. eval_cond ilike ps c (lr_invoice r)) conds)
       (left_join_suppliers (suppliers st) (invoices st))"

text \<open>
  \<open>ORDER BY i.column direction\<close>. The order of one column, ascending, with \<open>NULL\<close> after
  every value; \<open>text_le\<close> is the order of the collation on texts. Rows with equal keys
  keep their order here; PostgreSQL leaves their order open.
\<close>

definition column_le :: "(string \<Rightarrow> string \<Rightarrow> bool) \<Rightarrow> string \<Rightarrow> invoice \<Rightarrow> invoice \<Rightarrow> bool" where
  "column_le text_le col a b =
     (if col = ''invoice_date''
      then (case (i_invoice_date a, i_invoice_date b) of
              (_, None) \<Rightarrow> True
            | (None, Some y) \<Rightarrow> False
            | (Some x, Some y) \<Rightarrow> epoch_secs x \<le> epoch_secs y)
      else if col = ''amount'' then i_amount a \<le> i_amount b
      else if col = ''supplier_name'' then text_le (i_supplier_name a) (i_supplier_name b)
      else epoch_secs (i_created_at a) \<le> epoch_secs (i_created_at b))"

fun order_insert :: "('a \<Rightarrow> 'a \<Rightarrow> bool) \<Rightarrow> 'a \<Rightarrow> 'a list \<Rightarrow> 'a list" where
  "order_insert le x [] = [x]"
| "order_insert le x (y # ys) = (if le x y then x # y # ys else y # order_insert le x ys)"

definition order_by :: "('a \<Rightarrow> 'a \<Rightarrow> bool) \<Rightarrow> 'a list \<Rightarrow> 'a list" where
  "order_by le rows = foldr (order_insert le) rows []"

definition row_order ::
  "(string \<Rightarrow> string \<Rightarrow> bool) \<Rightarrow> string \<Rightarrow> string \<Rightarrow> list_row \<Rightarrow> list_row \<Rightarrow> bool" where
  "row_order text_le col dir a b =
     (if dir = ''ASC'' then column_le text_le col (lr_invoice a) (lr_invoice b)
      else column_le text_le col (lr_invoice b) (lr_invoice a))"

text \<open>
  The main statement: its last two placeholders are \<open>LIMIT\<close> and \<open>OFFSET\<close>, and
  PostgreSQL rejects a negative value of either.
\<close>

definition list_sql ::
  "(string \<Rightarrow> string \<Rightarrow> bool) \<Rightarrow> (string \<Rightarrow> string \<Rightarrow> bool) \<Rightarrow> store \<Rightarrow> cond list \<Rightarrow> string \<Rightarrow> string
     \<Rightarrow> sqlval list \<Rightarrow> db_error + list_row list" where
  "list_sql ilike text_le st conds col dir ps =
     (case (ps ! length conds, ps ! Suc (length conds)) of
        (VInt l, VInt off) \<Rightarrow>
          if l < 0 \<or> off < 0 then Inl QueryError
          else Inr (take (nat l) (drop (nat off)
                 (order_by (row_order text_le col dir) (where_rows ilike st conds ps))))
      | _ \<Rightarrow> Inl QueryError)"

text \<open>
  The count statement: the text of the main statement before \<open>ORDER BY\<close>, with the
  selected columns replaced by \<open>COUNT(*)\<close>.
\<close>

definition count_sql :: "(string \<Rightarrow> string \<Rightarrow> bool) \<Rightarrow> store \<Rightarrow> cond list \<Rightarrow> sqlval list \<Rightarrow> int" where
  "count_sql ilike st conds ps = count_rows (where_rows ilike st conds ps)"

definition to_upper :: "char \<Rightarrow> char" where
  "to_upper c = (let n = (of_char c :: nat) in if 97 \<le> n \<and> n \<le> 122 then char_of (n - 32) else c)"

definition sortColumn :: "string option \<Rightarrow> string" where
  "sortColumn sort_by =
     (let s = (case sort_by of None \<Rightarrow> ''created_at'' | Some s \<Rightarrow> s) in
      if s \<in> set [''created_at'', ''invoice_date'', ''amount'', ''supplier_name''] then s
      else ''created_at'')"

definition sortDirection :: "string option \<Rightarrow> string" where
  "sortDirection sort_order =
     (let s = (case sort_order of None \<Rightarrow> ''DESC'' | Some s \<Rightarrow> s) in
      if map to_upper s = ''ASC'' then ''ASC'' else ''DESC'')"

record list_response =
  lsr_data :: "list_row list"
  lsr_total :: int
  lsr_limit :: int
  lsr_offset :: int
  lsr_pages :: "int option"

text \<open>
  \<open>GET /api/invoices\<close>. \<open>pages\<close> is \<open>Math.ceil(count / limit)\<close>, which is not a number
  of pages when the limit is 0 (\<open>None\<close>).
\<close>

definition list_invoices ::
  "(string \<Rightarrow> string \<Rightarrow> bool) \<Rightarrow> (string \<Rightarrow> string \<Rightarrow> bool) \<Rightarrow> store \<Rightarrow> list_query
     \<Rightarrow> http_error + list_response" where
  "list_invoices ilike text_le st q =
     (let limit = (case q_limit q of None \<Rightarrow> 50 | Some n \<Rightarrow> n);
          offset = (case q_offset q of None \<Rightarrow> 0 | Some n \<Rightarrow> n);
          conds = fst (build_filters q);
          params = snd (build_filters q) @ [VInt limit, VInt offset]
      in case query (length conds + 2) params
                (list_sql ilike text_le st conds (sortColumn (q_sort_by q))
                   (sortDirection (q_sort_order q))) of
           Inl e \<Rightarrow> Inl ServerError
         | Inr (Inl e) \<Rightarrow> Inl ServerError
         | Inr (Inr result) \<Rightarrow>
             (case query (length conds) (take (length params - 2) params)
                     (count_sql ilike st conds) of
                Inl e \<Rightarrow> Inl ServerError
              | Inr countResult \<Rightarrow>
                  Inr \<lparr>lsr_data = result, lsr_total = countResult, lsr_limit = limit,
                       lsr_offset = offset,
                       lsr_pages = (if limit = 0 then None
                                    else Some \<lceil>(of_int countResult :: rat) / of_int limit\<rceil>)\<rparr>))"

text \<open>
  The filters of a listing other than the company, written down from the request alone:
  status equal, category and supplier name matching the pattern \<open>%text%\<close>, invoice date
  within the two bounds.
\<close>

definition other_filters :: "(string \<Rightarrow> string \<Rightarrow> bool) \<Rightarrow> list_query \<Rightarrow> invoice \<Rightarrow> bool" where
  "other_filters ilike q i =
     ((case q_status q of
         None \<Rightarrow> True | Some s \<Rightarrow> s = [] \<or> i_status i = s)
      \<and> (case q_category q of
         None \<Rightarrow> True
       | Some c \<Rightarrow> c = [] \<or> (case i_category i of None \<Rightarrow> False | Some t \<Rightarrow> ilike t (''%'' @ c @ ''%'')))
      \<and> (case q_supplier q of
         None \<Rightarrow> True | Some c \<Rightarrow> c = [] \<or> ilike (i_supplier_name i) (''%'' @ c @ ''%''))
      \<and> (case q_date_from q of
         None \<Rightarrow> True
       | Some t \<Rightarrow> (case i_invoice_date i of None \<Rightarrow> False | Some d \<Rightarrow> epoch_secs t \<le> epoch_secs d))
      \<and> (case q_date_to q of
         None \<Rightarrow> True
       | Some t \<Rightarrow> (case i_invoice_date i of None \<Rightarrow> False | Some d \<Rightarrow> epoch_secs d \<le> epoch_secs t)))"

text \<open>
  What the construction of the listing's conditions keeps true: as many values as
  conditions, and the conjunction of the conditions equal to a predicate \<open>P\<close> on
  invoices, whatever values follow in \<open>params\<close>.
\<close>

definition filters_inv ::
  "(string \<Rightarrow> string \<Rightarrow> bool) \<Rightarrow> cond list \<times> sqlval list \<Rightarrow> (invoice \<Rightarrow> bool) \<Rightarrow> bool" where
  "filters_inv ilike b P =
     (length (snd b) = length (fst b)
      \<and> (\<forall>i xs. list_all (\<lambda>c. eval_cond ilike (snd b @ xs) c i) (fst b) = P i))"

text \<open>
  The rows of a listing before ordering and paging, written down from the request: the
  joined rows whose invoice is of the requested company, when one is requested, and
  passes the other filters.
\<close>

definition listing_rows :: "(string \<Rightarrow> string \<Rightarrow> bool) \<Rightarrow> store \<Rightarrow> list_query \<Rightarrow> list_row list" where
  "listing_rows ilike st q =
     filter (\<lambda>r. (truthy (q_company_phone q) \<longrightarrow>
                    Some (i_company_phone (lr_invoice r)) = q_company_phone q)
                 \<and> other_filters ilike q (lr_invoice r))
       (left_join_suppliers (suppliers st) (invoices st))"

text \<open>
  For running the listing: a matcher for \<open>ILIKE\<close> patterns with \<open>%\<close> and \<open>_\<close> that
  compares ASCII letters without case, and the byte order on texts.
\<close>

fun like_match :: "string \<Rightarrow> string \<Rightarrow> bool" where
  "like_match [] [] = True"
| "like_match [] (p # ps) = (p = CHR ''%'' \<and> like_match [] ps)"
| "like_match (c # cs) [] = False"
| "like_match (c # cs) (p # ps) =
     (if p = CHR ''%'' then like_match (c # cs) ps \<or> like_match cs (p # ps)
      else if p = CHR ''_'' then like_match cs ps
      else to_upper c = to_upper p \<and> like_match cs ps)"

fun bytes_le :: "string \<Rightarrow> string \<Rightarrow> bool" where
  "bytes_le [] t = True"
| "bytes_le (a # s) [] = False"
| "bytes_le (a # s) (b # t) =
     ((of_char a :: nat) < of_char b \<or> (a = b \<and> bytes_le s t))"

section \<open>Suppliers: listing, ranking and recurring patterns\<close>





























section \<open>Sample data\<close>

text \<open>Small stores and requests on which the operations are run below.\<close>

definition mk_time :: "int \<Rightarrow> int \<Rightarrow> int \<Rightarrow> int \<Rightarrow> timestamp" where
  "mk_time y m d s = \<lparr>ts_year = y, ts_month = m, ts_day = d, ts_secs = s\<rparr>"

definition empty_store :: store where
  "empty_store = \<lparr>invoices = [], suppliers = [], next_invoice_id = 1\<rparr>"

definition sample_body :: "string \<Rightarrow> string \<Rightarrow> money \<Rightarrow> timestamp option \<Rightarrow> invoice_body" where
  "sample_body phone name a d =
     \<lparr>b_company_phone = Some phone, b_supplier_name = Some name, b_amount = Some a,
      b_currency = None, b_invoice_date = d, b_due_date = None, b_tax_id = None,
      b_description = None, b_category = None, b_status = None\<rparr>"

text \<open>The store after a request: an error response leaves it as it was.\<close>

definition store_after :: "store \<Rightarrow> http_error + (store \<times> 'a) \<Rightarrow> store" where
  "store_after st response = (case response of Inl e \<Rightarrow> st | Inr (st', row) \<Rightarrow> st')"

definition created_once :: store where
  "created_once =
     store_after empty_store
       (create_invoice empty_store (mk_time 2024 3 1 36000)
          (sample_body ''+34600000000'' ''Acme'' 100 (Some (mk_time 2024 2 28 0))))"

definition created_twice :: store where
  "created_twice =
     store_after created_once
       (create_invoice created_once (mk_time 2024 3 5 36000)
          (sample_body ''+34600000000'' ''Acme'' 50 (Some (mk_time 2024 1 15 0))))"

definition confirmed_once :: store where
  "confirmed_once =
     store_after created_once (change_status created_once (mk_time 2024 3 2 0) 1 ''confirmed'')"

definition confirmed_twice :: store where
  "confirmed_twice =
     store_after confirmed_once
       (change_status confirmed_once (mk_time 2024 3 9 0) 1 ''confirmed'')"

definition paid_after_confirmed :: store where
  "paid_after_confirmed =
     store_after confirmed_once (change_status confirmed_once (mk_time 2024 3 20 0) 1 ''paid'')"

definition sample_invoice ::
  "nat \<Rightarrow> string \<Rightarrow> string \<Rightarrow> money \<Rightarrow> timestamp option \<Rightarrow> timestamp option \<Rightarrow> string
     \<Rightarrow> timestamp \<Rightarrow> invoice" where
  "sample_invoice n phone name a d due status created =
     \<lparr>i_id = n, i_company_phone = phone, i_supplier_name = name, i_amount = a,
      i_currency = ''EUR'', i_invoice_date = d, i_due_date = due, i_tax_id = None,
      i_description = None, i_category = None, i_status = status, i_created_at = created,
      i_updated_at = None, i_confirmed_at = None\<rparr>"

text \<open>
  Three invoices of one company, dated January 2024, March 2025 and May 2025, and one
  invoice of another company; the requests below are made on 2025-06-15 at noon.
\<close>

definition analytics_store :: store where
  "analytics_store =
     \<lparr>invoices =
        [sample_invoice 1 ''+34600000000'' ''Acme'' 300 (Some (mk_time 2024 1 10 0)) None
           ''paid'' (mk_time 2024 1 12 0),
         sample_invoice 2 ''+34600000000'' ''Acme'' 250 (Some (mk_time 2025 3 1 0)) None
           ''confirmed'' (mk_time 2025 3 2 0),
         sample_invoice 3 ''+34600000000'' ''Bolt'' 150 (Some (mk_time 2025 5 20 0)) None
           ''pending'' (mk_time 2025 5 21 0),
         sample_invoice 4 ''+34911111111'' ''Acme'' 999 (Some (mk_time 2025 4 2 0)) None
           ''pending'' (mk_time 2025 4 2 0)],
      suppliers = [], next_invoice_id = 5\<rparr>"

definition analytics_now :: timestamp where
  "analytics_now = mk_time 2025 6 15 43200"

text \<open>
  One invoice of 121.00, confirmed, due on 2025-06-14, the day before the request.
\<close>

definition overdue_store :: store where
  "overdue_store =
     \<lparr>invoices =
        [sample_invoice 1 ''+34600000000'' ''Acme'' 121 (Some (mk_time 2025 5 15 0))
           (Some (mk_time 2025 6 14 0)) ''confirmed'' (mk_time 2025 5 16 0)],
      suppliers = [], next_invoice_id = 2\<rparr>"

definition all_invoices_query :: list_query where
  "all_invoices_query =
     \<lparr>q_company_phone = None, q_status = None, q_category = None, q_supplier = None,
      q_date_from = None, q_date_to = None, q_limit = None, q_offset = None,
      q_sort_by = None, q_sort_order = None\<rparr>"

definition pending_query :: list_query where
  "pending_query = all_invoices_query\<lparr>q_status := Some ''pending''\<rparr>"





section \<open>Properties\<close>

text \<open>
  C6. The importance score does not decrease when the total amount grows, nor when the
  invoice count grows, the other two inputs being the same.
\<close>

theorem importance_score_mono:
  "(t \<le> t' \<longrightarrow> importance_score t c d \<le> importance_score t' c d)
   \<and> (c \<le> c' \<longrightarrow> importance_score t c d \<le> importance_score t c' d)"
  by (simp add: importance_score_def divide_right_mono)

theorem importance_score_mono_witness:
  "importance_score 1000 2 5 \<le> importance_score 2000 2 5
   \<and> importance_score 1000 2 5 \<le> importance_score 1000 3 5
   \<and> importance_score 1000 2 5 = 17 / 2 \<and> importance_score 2000 2 5 = 89 / 10
   \<and> importance_score 1000 3 5 = 44 / 5"
proof -
  have a: "(1000::rat) \<le> 2000" and c: "(2::nat) \<le> 3"
    by simp_all
  from importance_score_mono [of 1000 2000 2 5 3] a c
  have "importance_score 1000 2 5 \<le> importance_score 2000 2 5"
    and "importance_score 1000 2 5 \<le> importance_score 1000 3 5"
    by blast+
  moreover have "importance_score 1000 2 5 = 17 / 2" "importance_score 2000 2 5 = 89 / 10"
    "importance_score 1000 3 5 = 44 / 5"
    by (simp_all add: importance_score_def)
  ultimately show ?thesis by blast
qed

subsection \<open>Invoice creation and the supplier counters\<close>

lemma create_invoice_eq:
  assumes "invoiceSchema_validate b = Some v"
  shows "create_invoice st now b =
     (let ins = insert_invoice_sql st now
                  [opt_val VText (b_company_phone v), opt_val VText (b_supplier_name v),
                   opt_val VNum (b_amount v), opt_val VText (b_currency v),
                   opt_val VTime (b_invoice_date v), opt_val VTime (b_due_date v),
                   opt_val VText (b_tax_id v), opt_val VText (b_description v),
                   opt_val VText (b_category v), opt_val VText (b_status v)]
      in Inr (upsert_supplier_sql (fst ins) now
                [opt_val VText (b_supplier_name v), opt_val VText (b_company_phone v),
                 opt_val VNum (b_amount v),
                 VTime (case b_invoice_date v of Some d \<Rightarrow> d | None \<Rightarrow> now)], snd ins))"
  using assms
  by (simp add: create_invoice_def transaction_def query_def Let_def split: prod.splits)

lemma create_invoice_valid:
  assumes "invoiceSchema_validate b \<noteq> None"
  shows "\<exists>st' r. create_invoice st now b = Inr (st', r)"
proof -
  from assms obtain v where "invoiceSchema_validate b = Some v" by auto
  from create_invoice_eq [OF this] show ?thesis by (simp add: Let_def)
qed

lemma create_invoice_suppliers:
  assumes "create_invoice st now b = Inr (st', r)"
      and "b_supplier_name b = Some name" "b_company_phone b = Some phone" "b_amount b = Some a"
  shows "suppliers st' =
     (if supplier_rows st name phone \<noteq> []
      then map (\<lambda>s. if s_name s = name \<and> s_company_phone s = phone
                     then s\<lparr>s_total_invoices := s_total_invoices s + 1,
                              s_total_amount := s_total_amount s + a,
                              s_last_invoice_date :=
                                Some (case b_invoice_date b of Some d \<Rightarrow> d | None \<Rightarrow> now),
                              s_updated_at := Some now\<rparr> else s) (suppliers st)
      else suppliers st @ [\<lparr>s_name = name, s_company_phone = phone, s_rating = None,
               s_total_invoices = 1, s_total_amount = a,
               s_last_invoice_date = Some (case b_invoice_date b of Some d \<Rightarrow> d | None \<Rightarrow> now),
               s_created_at = now, s_updated_at = None\<rparr>])"
proof -
  from assms(1) obtain v where v: "invoiceSchema_validate b = Some v"
    by (auto simp: create_invoice_def split: option.splits)
  then have veq: "v = b\<lparr>b_currency := Some (case b_currency b of None \<Rightarrow> ''EUR'' | Some c \<Rightarrow> c),
                   b_status := Some (case b_status b of None \<Rightarrow> ''pending'' | Some s \<Rightarrow> s)\<rparr>"
    by (simp add: invoiceSchema_validate_def split: if_splits)
  from assms(1) have "st' = upsert_supplier_sql (fst (insert_invoice_sql st now
                  [opt_val VText (b_company_phone v), opt_val VText (b_supplier_name v),
                   opt_val VNum (b_amount v), opt_val VText (b_currency v),
                   opt_val VTime (b_invoice_date v), opt_val VTime (b_due_date v),
                   opt_val VText (b_tax_id v), opt_val VText (b_description v),
                   opt_val VText (b_category v), opt_val VText (b_status v)])) now
                [opt_val VText (b_supplier_name v), opt_val VText (b_company_phone v),
                 opt_val VNum (b_amount v),
                 VTime (case b_invoice_date v of Some d \<Rightarrow> d | None \<Rightarrow> now)]"
    unfolding create_invoice_eq [OF v] by (simp add: Let_def)
  then show ?thesis
    using assms(2,3,4)
    by (simp add: veq opt_val_def upsert_supplier_sql_def insert_invoice_sql_def
          supplier_conflict_def supplier_rows_def filter_empty_conv Let_def)
qed

lemma filter_map_bump:
  "filter P (map (\<lambda>s. if P s then f s else s) xs) = map f (filter P xs)"
  if "\<And>s. P s \<Longrightarrow> P (f s)"
  using that by (induction xs) auto

lemma sample_body_validate:
  "0 < a \<Longrightarrow> phone \<noteq> [] \<Longrightarrow> name \<noteq> [] \<Longrightarrow>
   invoiceSchema_validate (sample_body phone name a d) =
     Some ((sample_body phone name a d)\<lparr>b_currency := Some ''EUR'', b_status := Some ''pending''\<rparr>)"
  by (simp add: invoiceSchema_validate_def sample_body_def required_string_def)

lemma sample_body_created:
  assumes "0 < a" "phone \<noteq> []" "name \<noteq> []"
  shows "\<exists>st' r. create_invoice st now (sample_body phone name a d) = Inr (st', r)"
  by (rule create_invoice_valid) (simp add: sample_body_validate [OF assms])

lemma created_once_eq:
  "created_once =
     \<lparr>invoices = [\<lparr>i_id = 1, i_company_phone = ''+34600000000'', i_supplier_name = ''Acme'',
                    i_amount = 100, i_currency = ''EUR'',
                    i_invoice_date = Some (mk_time 2024 2 28 0), i_due_date = None,
                    i_tax_id = None, i_description = None, i_category = None,
                    i_status = ''pending'', i_created_at = mk_time 2024 3 1 36000,
                    i_updated_at = None, i_confirmed_at = None\<rparr>],
      suppliers = [\<lparr>s_name = ''Acme'', s_company_phone = ''+34600000000'', s_rating = None,
                     s_total_invoices = 1, s_total_amount = 100,
                     s_last_invoice_date = Some (mk_time 2024 2 28 0),
                     s_created_at = mk_time 2024 3 1 36000, s_updated_at = None\<rparr>],
      next_invoice_id = 2\<rparr>"
  unfolding created_once_def
  by (simp add: create_invoice_eq [OF sample_body_validate] store_after_def)
     (simp add: sample_body_def insert_invoice_sql_def upsert_supplier_sql_def opt_val_def
        empty_store_def Let_def)


text \<open>
  C5. When no supplier row exists for a (supplier name, company) pair, creating an invoice
  for the pair leaves exactly one row for it, with \<open>total_invoices = 1\<close> and
  \<open>total_amount\<close> the invoice's amount; creating a second invoice for the same pair leaves
  that single row with \<open>total_invoices = 2\<close> and \<open>total_amount\<close> the sum of the two
  amounts.
\<close>

theorem create_invoice_supplier_counters:
  assumes "supplier_rows st name phone = []"
      and "b_supplier_name b1 = Some name" "b_company_phone b1 = Some phone" "b_amount b1 = Some a1"
      and "b_supplier_name b2 = Some name" "b_company_phone b2 = Some phone" "b_amount b2 = Some a2"
      and "create_invoice st t1 b1 = Inr (st1, r1)"
      and "create_invoice st1 t2 b2 = Inr (st2, r2)"
  shows "(\<exists>s. supplier_rows st1 name phone = [s] \<and> s_total_invoices s = 1 \<and> s_total_amount s = a1)
       \<and> (\<exists>s. supplier_rows st2 name phone = [s] \<and> s_total_invoices s = 2
              \<and> s_total_amount s = a1 + a2)"
proof -
  let ?P = "\<lambda>s. s_name s = name \<and> s_company_phone s = phone"
  have none: "filter ?P (suppliers st) = []"
    using assms(1) by (simp add: supplier_rows_def)
  have s1: "suppliers st1 = suppliers st @ [\<lparr>s_name = name, s_company_phone = phone, s_rating = None,
               s_total_invoices = 1, s_total_amount = a1,
               s_last_invoice_date = Some (case b_invoice_date b1 of Some d \<Rightarrow> d | None \<Rightarrow> t1),
               s_created_at = t1, s_updated_at = None\<rparr>]"
    using create_invoice_suppliers [OF assms(8) assms(2,3,4)] assms(1) by simp
  have rows1: "supplier_rows st1 name phone = [\<lparr>s_name = name, s_company_phone = phone, s_rating = None,
               s_total_invoices = 1, s_total_amount = a1,
               s_last_invoice_date = Some (case b_invoice_date b1 of Some d \<Rightarrow> d | None \<Rightarrow> t1),
               s_created_at = t1, s_updated_at = None\<rparr>]"
    by (simp add: supplier_rows_def s1 none)
  have s2: "suppliers st2 = map (\<lambda>s. if ?P s
                     then s\<lparr>s_total_invoices := s_total_invoices s + 1,
                              s_total_amount := s_total_amount s + a2,
                              s_last_invoice_date :=
                                Some (case b_invoice_date b2 of Some d \<Rightarrow> d | None \<Rightarrow> t2),
                              s_updated_at := Some t2\<rparr> else s) (suppliers st1)"
    using create_invoice_suppliers [OF assms(9) assms(5,6,7)] rows1 by simp
  have rows2: "supplier_rows st2 name phone =
      map (\<lambda>s. s\<lparr>s_total_invoices := s_total_invoices s + 1,
                              s_total_amount := s_total_amount s + a2,
                              s_last_invoice_date :=
                                Some (case b_invoice_date b2 of Some d \<Rightarrow> d | None \<Rightarrow> t2),
                              s_updated_at := Some t2\<rparr>) (supplier_rows st1 name phone)"
    unfolding supplier_rows_def s2 by (rule filter_map_bump) simp
  show ?thesis
    by (simp add: rows1 rows2)
qed

theorem create_invoice_supplier_counters_witness:
  "supplier_rows empty_store ''Acme'' ''+34600000000'' = []
   \<and> map (\<lambda>s. (s_total_invoices s, s_total_amount s))
        (supplier_rows created_once ''Acme'' ''+34600000000'') = [(1, 100)]
   \<and> map (\<lambda>s. (s_total_invoices s, s_total_amount s))
        (supplier_rows created_twice ''Acme'' ''+34600000000'') = [(2, 150)]"
proof -
  let ?b1 = "sample_body ''+34600000000'' ''Acme'' 100 (Some (mk_time 2024 2 28 0))"
  let ?b2 = "sample_body ''+34600000000'' ''Acme'' 50 (Some (mk_time 2024 1 15 0))"
  have e: "supplier_rows empty_store ''Acme'' ''+34600000000'' = []"
    by (simp add: supplier_rows_def empty_store_def)
  have "\<exists>st1 r1. create_invoice empty_store (mk_time 2024 3 1 36000) ?b1 = Inr (st1, r1)"
    by (rule sample_body_created) simp_all
  then obtain st1 r1 where
    c1: "create_invoice empty_store (mk_time 2024 3 1 36000) ?b1 = Inr (st1, r1)"
    by blast
  then have st1: "created_once = st1"
    by (simp add: created_once_def store_after_def)
  have "\<exists>st2 r2. create_invoice st1 (mk_time 2024 3 5 36000) ?b2 = Inr (st2, r2)"
    by (rule sample_body_created) simp_all
  then obtain st2 r2 where
    c2: "create_invoice st1 (mk_time 2024 3 5 36000) ?b2 = Inr (st2, r2)"
    by blast
  then have st2: "created_twice = st2"
    by (simp add: created_twice_def store_after_def st1)
  have "(\<exists>s. supplier_rows st1 ''Acme'' ''+34600000000'' = [s] \<and> s_total_invoices s = 1
             \<and> s_total_amount s = 100)
       \<and> (\<exists>s. supplier_rows st2 ''Acme'' ''+34600000000'' = [s] \<and> s_total_invoices s = 2
             \<and> s_total_amount s = 100 + 50)"
    by (rule create_invoice_supplier_counters [OF e _ _ _ _ _ _ c1 c2])
       (simp_all add: sample_body_def)
  with e show ?thesis
    by (auto simp: st1 st2)
qed

subsection \<open>Change of status and \<open>confirmed_at\<close>\<close>

lemma update_status_sql_eq:
  "update_status_sql st now [VText status, VInt (int invoice_id)] =
     (let rows = map (\<lambda>i. if i_id i = invoice_id
                           then i\<lparr>i_status := status,
                                  i_confirmed_at :=
                                    (if status = ''confirmed'' then Some now
                                     else i_confirmed_at i),
                                  i_updated_at := Some now\<rparr>
                           else i) (invoices st)
      in (st\<lparr>invoices := rows\<rparr>, filter (\<lambda>i. i_id i = invoice_id) rows))"
proof -
  have p: "[VText status, VInt (int invoice_id)] ! 0 = VText status"
          "[VText status, VInt (int invoice_id)] ! 1 = VInt (int invoice_id)"
    by simp_all
  have q: "text_of (VText status) = status" "(VText status = VText ''confirmed'') = (status = ''confirmed'')"
    by simp_all
  show ?thesis
    unfolding update_status_sql_def p q by simp
qed

lemma change_status_eq:
  assumes "valid_status status"
  shows "change_status st now invoice_id status =
     (let rows = map (\<lambda>i. if i_id i = invoice_id
                           then i\<lparr>i_status := status,
                                  i_confirmed_at :=
                                    (if status = ''confirmed'' then Some now
                                     else i_confirmed_at i),
                                  i_updated_at := Some now\<rparr>
                           else i) (invoices st)
      in case filter (\<lambda>i. i_id i = invoice_id) rows of
           [] \<Rightarrow> Inl NotFound
         | row # _ \<Rightarrow> Inr (st\<lparr>invoices := rows\<rparr>, row))"
  using assms
  by (simp add: change_status_def query_def update_status_sql_eq Let_def)

lemma change_status_Inr:
  assumes "change_status st now invoice_id status = Inr (st', row)"
  shows "invoices st' = map (\<lambda>i. if i_id i = invoice_id
                           then i\<lparr>i_status := status,
                                  i_confirmed_at :=
                                    (if status = ''confirmed'' then Some now
                                     else i_confirmed_at i),
                                  i_updated_at := Some now\<rparr>
                           else i) (invoices st)"
    and "row \<in> set (invoices st')" and "i_id row = invoice_id"
proof -
  have v: "valid_status status"
  proof (rule ccontr)
    assume "\<not> valid_status status"
    then have "change_status st now invoice_id status = Inl BadRequest"
      by (simp add: change_status_def)
    with assms show False by simp
  qed
  let ?rows = "map (\<lambda>i. if i_id i = invoice_id
                           then i\<lparr>i_status := status,
                                  i_confirmed_at :=
                                    (if status = ''confirmed'' then Some now
                                     else i_confirmed_at i),
                                  i_updated_at := Some now\<rparr>
                           else i) (invoices st)"
  have c: "(case filter (\<lambda>i. i_id i = invoice_id) ?rows of
           [] \<Rightarrow> Inl NotFound
         | r # _ \<Rightarrow> Inr (st\<lparr>invoices := ?rows\<rparr>, r)) = Inr (st', row)"
    using assms unfolding change_status_eq [OF v] Let_def .
  obtain rest where
    f: "filter (\<lambda>i. i_id i = invoice_id) ?rows = row # rest" and s: "st' = st\<lparr>invoices := ?rows\<rparr>"
  proof (cases "filter (\<lambda>i. i_id i = invoice_id) ?rows")
    case Nil
    with c show ?thesis by (simp only: list.case) simp
  next
    case (Cons a rest)
    with c have "Inr (st\<lparr>invoices := ?rows\<rparr>, a) = (Inr (st', row) :: http_error + store \<times> invoice)"
      by (simp only: list.case)
    then have "st' = st\<lparr>invoices := ?rows\<rparr>" "a = row" by simp_all
    with Cons that show ?thesis by blast
  qed
  from s show inv: "invoices st' = ?rows" by simp
  have "row \<in> set (filter (\<lambda>i. i_id i = invoice_id) ?rows)"
    unfolding f by simp
  then have "row \<in> set ?rows \<and> i_id row = invoice_id"
    by (simp only: set_filter mem_Collect_eq)
  then show "row \<in> set (invoices st')" "i_id row = invoice_id"
    unfolding inv by blast+
qed

lemma change_status_found:
  assumes "valid_status status" "\<exists>i \<in> set (invoices st). i_id i = invoice_id"
  shows "\<exists>st' row. change_status st now invoice_id status = Inr (st', row)"
proof -
  let ?rows = "map (\<lambda>i. if i_id i = invoice_id
                           then i\<lparr>i_status := status,
                                  i_confirmed_at :=
                                    (if status = ''confirmed'' then Some now
                                     else i_confirmed_at i),
                                  i_updated_at := Some now\<rparr>
                           else i) (invoices st)"
  from assms(2) obtain i where i: "i \<in> set (invoices st)" "i_id i = invoice_id"
    by blast
  let ?i' = "i\<lparr>i_status := status,
               i_confirmed_at := (if status = ''confirmed'' then Some now else i_confirmed_at i),
               i_updated_at := Some now\<rparr>"
  from i have "?i' \<in> set ?rows"
    by (simp only: set_map) (rule image_eqI [where x = i], simp_all)
  moreover have "i_id ?i' = invoice_id"
    using i by simp
  ultimately have "?i' \<in> set (filter (\<lambda>i. i_id i = invoice_id) ?rows)"
    by (simp only: set_filter mem_Collect_eq simp_thms)
  then have "filter (\<lambda>i. i_id i = invoice_id) ?rows \<noteq> []"
    by (metis empty_iff list.set(1))
  then obtain row rest where f: "filter (\<lambda>i. i_id i = invoice_id) ?rows = row # rest"
    by (cases "filter (\<lambda>i. i_id i = invoice_id) ?rows") auto
  show ?thesis
    unfolding change_status_eq [OF assms(1)]
    by (simp only: Let_def f list.case) blast
qed

lemma valid_status_confirmed: "valid_status ''confirmed''"
  by (simp add: valid_status_def)

lemma valid_status_paid: "valid_status ''paid''"
  by (simp add: valid_status_def)

lemma invoices_after_change_status:
  assumes "valid_status status" "\<exists>i \<in> set (invoices st). i_id i = invoice_id"
  shows "invoices (store_after st (change_status st now invoice_id status)) =
           map (\<lambda>i. if i_id i = invoice_id
                     then i\<lparr>i_status := status,
                            i_confirmed_at :=
                              (if status = ''confirmed'' then Some now else i_confirmed_at i),
                            i_updated_at := Some now\<rparr>
                     else i) (invoices st)"
proof -
  from change_status_found [OF assms] obtain st' row where
    c: "change_status st now invoice_id status = Inr (st', row)"
    by blast
  then have "store_after st (change_status st now invoice_id status) = st'"
    by (simp add: store_after_def)
  with change_status_Inr(1) [OF c] show ?thesis
    by (simp only:)
qed

lemma created_once_has_1: "\<exists>i \<in> set (invoices created_once). i_id i = 1"
  by (simp add: created_once_eq)

lemma confirmed_once_invoices:
  "invoices confirmed_once =
     [\<lparr>i_id = 1, i_company_phone = ''+34600000000'', i_supplier_name = ''Acme'',
                    i_amount = 100, i_currency = ''EUR'',
                    i_invoice_date = Some (mk_time 2024 2 28 0), i_due_date = None,
                    i_tax_id = None, i_description = None, i_category = None,
                    i_status = ''confirmed'', i_created_at = mk_time 2024 3 1 36000,
                    i_updated_at = Some (mk_time 2024 3 2 0),
                    i_confirmed_at = Some (mk_time 2024 3 2 0)\<rparr>]"
  unfolding confirmed_once_def
    invoices_after_change_status [OF valid_status_confirmed created_once_has_1]
  by (simp add: created_once_eq)

lemma confirmed_once_has_1: "\<exists>i \<in> set (invoices confirmed_once). i_id i = 1"
  by (simp add: confirmed_once_invoices)

lemma confirmed_twice_invoices:
  "invoices confirmed_twice =
     [\<lparr>i_id = 1, i_company_phone = ''+34600000000'', i_supplier_name = ''Acme'',
                    i_amount = 100, i_currency = ''EUR'',
                    i_invoice_date = Some (mk_time 2024 2 28 0), i_due_date = None,
                    i_tax_id = None, i_description = None, i_category = None,
                    i_status = ''confirmed'', i_created_at = mk_time 2024 3 1 36000,
                    i_updated_at = Some (mk_time 2024 3 9 0),
                    i_confirmed_at = Some (mk_time 2024 3 9 0)\<rparr>]"
  unfolding confirmed_twice_def
    invoices_after_change_status [OF valid_status_confirmed confirmed_once_has_1]
  by (simp add: confirmed_once_invoices)

text \<open>
  C3, as the code has it. A change-status request that succeeds with status
  \<open>confirmed\<close> sets \<open>confirmed_at\<close> of the invoice to the time of the request, whether
  or not it was set before; a request with another status leaves \<open>confirmed_at\<close> as it
  was. No other invoice's \<open>confirmed_at\<close> changes.
\<close>

theorem change_status_confirmed_at:
  assumes "change_status st now invoice_id status = Inr (st', row)"
  shows "map i_confirmed_at (invoices st') =
           map (\<lambda>i. if i_id i = invoice_id \<and> status = ''confirmed'' then Some now
                     else i_confirmed_at i) (invoices st)
       \<and> (status = ''confirmed'' \<longrightarrow> i_confirmed_at row = Some now)
       \<and> (status \<noteq> ''confirmed'' \<longrightarrow>
            (\<exists>i \<in> set (invoices st). i_id i = invoice_id \<and> i_confirmed_at row = i_confirmed_at i))"
proof -
  let ?upd = "\<lambda>i. if i_id i = invoice_id
                           then i\<lparr>i_status := status,
                                  i_confirmed_at :=
                                    (if status = ''confirmed'' then Some now
                                     else i_confirmed_at i),
                                  i_updated_at := Some now\<rparr>
                           else i"
  note r = change_status_Inr [OF assms]
  have 1: "map i_confirmed_at (invoices st') =
           map (\<lambda>i. if i_id i = invoice_id \<and> status = ''confirmed'' then Some now
                     else i_confirmed_at i) (invoices st)"
    by (simp add: r(1))
  from r(2) have "row \<in> ?upd ` set (invoices st)"
    by (simp only: r(1) set_map)
  then obtain i where i: "i \<in> set (invoices st)" "row = ?upd i"
    by (rule imageE)
  have id: "i_id i = invoice_id"
  proof (rule ccontr)
    assume "i_id i \<noteq> invoice_id"
    with i(2) have "row = i" by simp
    with r(3) \<open>i_id i \<noteq> invoice_id\<close> show False by simp
  qed
  with i(2) have row: "row = i\<lparr>i_status := status,
                                  i_confirmed_at :=
                                    (if status = ''confirmed'' then Some now
                                     else i_confirmed_at i),
                                  i_updated_at := Some now\<rparr>"
    by simp
  have 2: "status = ''confirmed'' \<longrightarrow> i_confirmed_at row = Some now"
    by (simp add: row)
  have "status \<noteq> ''confirmed'' \<longrightarrow> i_confirmed_at row = i_confirmed_at i"
    by (simp add: row)
  with i(1) id have 3: "status \<noteq> ''confirmed'' \<longrightarrow>
            (\<exists>i \<in> set (invoices st). i_id i = invoice_id \<and> i_confirmed_at row = i_confirmed_at i)"
    by blast
  from 1 2 3 show ?thesis by blast
qed

theorem change_status_confirmed_at_witness:
  "map i_confirmed_at (invoices confirmed_once) = [Some (mk_time 2024 3 2 0)]
   \<and> map i_confirmed_at (invoices confirmed_twice) = [Some (mk_time 2024 3 9 0)]
   \<and> map i_confirmed_at (invoices paid_after_confirmed) = [Some (mk_time 2024 3 2 0)]"
proof -
  have ex: "\<exists>i \<in> set (invoices confirmed_once). i_id i = 1"
    by (simp add: confirmed_once_invoices)
  obtain st2 row2 where
    c2: "change_status confirmed_once (mk_time 2024 3 9 0) 1 ''confirmed'' = Inr (st2, row2)"
    using change_status_found [OF valid_status_confirmed ex] by blast
  then have st2: "confirmed_twice = st2"
    by (simp add: confirmed_twice_def store_after_def)
  obtain st3 row3 where
    c3: "change_status confirmed_once (mk_time 2024 3 20 0) 1 ''paid'' = Inr (st3, row3)"
    using change_status_found [OF valid_status_paid ex] by blast
  then have st3: "paid_after_confirmed = st3"
    by (simp add: paid_after_confirmed_def store_after_def)
  from change_status_confirmed_at [OF c2]
  have "map i_confirmed_at (invoices confirmed_twice) = [Some (mk_time 2024 3 9 0)]"
    by (simp add: st2 confirmed_once_invoices)
  moreover from change_status_confirmed_at [OF c3]
  have "map i_confirmed_at (invoices paid_after_confirmed) = [Some (mk_time 2024 3 2 0)]"
    by (simp add: st3 confirmed_once_invoices)
  ultimately show ?thesis
    by (simp add: confirmed_once_invoices)
qed

text \<open>
  The claim as written fails: an invoice confirmed on 2024-03-02 and confirmed again on
  2024-03-09 has \<open>confirmed_at\<close> of 2024-03-09 afterwards.
\<close>

theorem change_status_reconfirm_counterexample:
  "map i_confirmed_at (invoices confirmed_once) = [Some (mk_time 2024 3 2 0)]
   \<and> map i_confirmed_at (invoices confirmed_twice) = [Some (mk_time 2024 3 9 0)]
   \<and> mk_time 2024 3 9 0 \<noteq> mk_time 2024 3 2 0"
  by (simp add: confirmed_once_invoices confirmed_twice_invoices) (simp add: mk_time_def)

subsection \<open>Dashboard metrics and growth analysis\<close>

lemma interval_text_samples:
  "interval_text ''1y'' = ''1 year''" "interval_text ''2y'' = ''2 year''"
  "interval_text ''30d'' = ''30 da years''" "interval_text ''7d'' = ''7 da years''"
  "interval_text ''90d'' = ''90 da years''" "interval_text ''abc'' = ''abc''"
  "interval_text ''3400y'' = ''3400 year''" "interval_text ''7000y'' = ''7000 year''"
  by (simp_all add: interval_text_def)

lemma interval_value_months:
  "- 2147483648 \<le> n \<Longrightarrow> n \<le> 2147483647 \<Longrightarrow> interval_value (months_iv n) = Some (months_iv n)"
  by (simp add: interval_value_def interval_in_range_def months_iv_def)

lemma simple_interval_in_samples:
  "simple_interval_in ''1 year'' = Some (months_iv 12)"
  "simple_interval_in ''2 year'' = Some (months_iv 24)"
  "simple_interval_in ''30 da years'' = None"
  "simple_interval_in ''abc'' = None"
  "simple_interval_in ''3400 year'' = Some (months_iv 40800)"
  "simple_interval_in ''7000 year'' = Some (months_iv 84000)"
  by (simp_all add: simple_interval_in_def is_digit_def digits_value_def interval_value_months)

lemma epoch_secs_mk_time:
  "epoch_secs (mk_time y m d s) = days_from_civil y m d * 86400 + s"
  by (simp add: epoch_secs_def mk_time_def)

lemma ts_minus_now:
  "ts_minus analytics_now (months_iv 12) = 1718452800"
  "ts_minus analytics_now (months_iv 24) = 1686830400"
  "ts_minus analytics_now (months_iv 48) = 1623758400"
  "ts_minus analytics_now (days_iv 30) = 1747396800"
  by (simp_all add: ts_minus_def analytics_now_def months_iv_def days_iv_def add_months_def
        date_trunc_month_def days_in_month_def is_leap_year_def epoch_secs_def mk_time_def
        days_from_civil_def Let_def)

lemma sample_created_epochs:
  "epoch_secs (mk_time 2024 1 12 0) = 1705017600"
  "epoch_secs (mk_time 2025 3 2 0) = 1740873600"
  "epoch_secs (mk_time 2025 5 21 0) = 1747785600"
  "epoch_secs (mk_time 2025 4 2 0) = 1743552000"
  by (simp_all add: epoch_secs_mk_time days_from_civil_def Let_def)

lemma interval_times_months: "interval_times (months_iv n) k = months_iv (n * k)"
  by (simp add: interval_times_def months_iv_def)

text \<open>
  The two bounds are the first instant of 4714-11-24 BC, the year -4713 of the
  calendar with a year 0, and the first instant of the year 294277.
\<close>

lemma timestamp_range_bounds:
  "epoch_secs (mk_time (- 4713) 11 24 0) = - 210866803200"
  "epoch_secs (mk_time 294277 1 1 0) = 9224318016000"
  by (simp_all add: epoch_secs_mk_time days_from_civil_def Let_def)

lemma ts_minus_in_range_now:
  "ts_minus_in_range analytics_now (days_iv 30)"
  "ts_minus_in_range analytics_now (months_iv 12)"
  "ts_minus_in_range analytics_now (months_iv 24)"
  "ts_minus_in_range analytics_now (months_iv 48)"
  "ts_minus_in_range analytics_now (months_iv 40800)"
  "\<not> ts_minus_in_range analytics_now (months_iv 81600)"
  "\<not> ts_minus_in_range analytics_now (months_iv 84000)"
  by (simp_all add: ts_minus_in_range_def timestamp_in_range_def analytics_now_def months_iv_def
        days_iv_def add_months_def date_trunc_month_def days_in_month_def is_leap_year_def
        epoch_secs_def mk_time_def days_from_civil_def Let_def)

lemma interval_in_range_months:
  "interval_in_range (months_iv n) = (- 2147483648 \<le> n \<and> n \<le> 2147483647)"
  by (simp add: interval_in_range_def months_iv_def)

lemma windows_in_range_now:
  "windows_in_range analytics_now (months_iv 12) (months_iv 12)"
  "windows_in_range analytics_now (days_iv 30) (months_iv 24)"
  "\<not> windows_in_range analytics_now (days_iv 30) (months_iv 40800)"
  "\<not> windows_in_range analytics_now (days_iv 30) (months_iv 84000)"
  by (simp_all add: windows_in_range_def interval_times_months interval_in_range_months
        ts_minus_in_range_now)

lemma floor_rat_numeral_div:
  "\<lfloor>(numeral a :: rat) / numeral b\<rfloor> = numeral a div numeral b"
  using floor_divide_of_int_eq [of "numeral a" "numeral b", where ?'a = rat] by simp

lemma round2_samples:
  "round2 ((400 - 300) / 300 * 100) = 3333 / 100"
  "round2 (of_int (2 - 1) / of_int 1 * 100) = 100"
  "round2 ((150 - 250) / 250 * 100) = - 40"
  by (simp_all add: round2_def floor_rat_numeral_div)


lemma metrics_2y:
  "metrics_sql analytics_store analytics_now (days_iv 30) (months_iv 24) [VText ''+34600000000''] =
     \<lparr>m_total_invoices = 1, m_total_amount = 150, m_avg_amount = 150, m_unique_suppliers = 1,
      m_pending_invoices = 1, m_confirmed_invoices = 0, m_paid_invoices = 0,
      m_overdue_invoices = 0, m_prev_total_invoices = 0, m_prev_total_amount = 0,
      m_amount_change_percent = 0, m_invoices_change_percent = 0\<rparr>"
  by (simp add: metrics_sql_def analytics_store_def sample_invoice_def Let_def sum_amount_def
        count_rows_def overdue_def ts_minus_now sample_created_epochs interval_times_months)

lemma dashboard_eq:
  assumes "truthy company_phone"
  shows "dashboard interval_in st now company_phone period_param =
     (let period = (case period_param of None \<Rightarrow> ''30d'' | Some p \<Rightarrow> p) in
      case interval_in (interval_text period) of
        None \<Rightarrow> Inl ServerError
      | Some prev \<Rightarrow>
          if windows_in_range now (dateFilter period) prev
          then Inr (metrics_sql st now (dateFilter period) prev [opt_val VText company_phone])
          else Inl ServerError)"
  using assms
  by (simp add: dashboard_def query_def Let_def split: option.splits)

text \<open>
  C9, as the code has it. For a period outside 7d, 30d, 90d and 1y (and free of quote
  characters) the current-period filter is 30 days and the previous-period window is
  read from the literal that the raw period gives after the two replacements. The
  request is answered with status 500 when PostgreSQL rejects that literal, and also
  when the interval doubled, or a bound of one of the windows, lies outside PostgreSQL's
  ranges (as for \<open>7000y\<close>, and for \<open>3400y\<close> through the doubled interval). In every other
  case (as for \<open>2y\<close>, which gives \<open>2 year\<close>) the request succeeds, with the metrics of
  the last 30 days set against a previous window of that length.
\<close>

theorem dashboard_unlisted_period:
  assumes "period \<notin> set [''7d'', ''30d'', ''90d'', ''1y'']" and "truthy company_phone"
      and "quote_free period"
  shows "dashboard interval_in st now company_phone (Some period) =
           (case interval_in (interval_text period) of
              None \<Rightarrow> Inl ServerError
            | Some prev \<Rightarrow>
                if windows_in_range now (days_iv 30) prev
                then Inr (metrics_sql st now (days_iv 30) prev [opt_val VText company_phone])
                else Inl ServerError)"
proof -
  from assms(1) have "dateFilter period = days_iv 30"
    by (simp add: dateFilter_def)
  then show ?thesis
    by (simp add: dashboard_eq [OF assms(2)] split: option.split)
qed

lemma truthy_sample: "truthy (Some ''+34600000000'')"
  by (simp add: truthy_def)

lemma unlisted_samples:
  "''2y'' \<notin> set [''7d'', ''30d'', ''90d'', ''1y'']"
  "''abc'' \<notin> set [''7d'', ''30d'', ''90d'', ''1y'']"
  "''3400y'' \<notin> set [''7d'', ''30d'', ''90d'', ''1y'']"
  "''7000y'' \<notin> set [''7d'', ''30d'', ''90d'', ''1y'']"
  by simp_all

lemma quote_free_samples:
  "quote_free ''2y''" "quote_free ''abc''" "quote_free ''1y''" "quote_free ''30d''"
  "quote_free ''3400y''" "quote_free ''7000y''"
  by (simp_all add: quote_free_def)

theorem dashboard_unlisted_period_witness:
  "dashboard simple_interval_in analytics_store analytics_now (Some ''+34600000000'') (Some ''abc'')
     = Inl ServerError
   \<and> dashboard simple_interval_in analytics_store analytics_now (Some ''+34600000000'') (Some ''7000y'')
     = Inl ServerError
   \<and> dashboard simple_interval_in analytics_store analytics_now (Some ''+34600000000'') (Some ''3400y'')
     = Inl ServerError
   \<and> dashboard simple_interval_in analytics_store analytics_now (Some ''+34600000000'') (Some ''2y'')
     = Inr \<lparr>m_total_invoices = 1, m_total_amount = 150, m_avg_amount = 150,
            m_unique_suppliers = 1, m_pending_invoices = 1, m_confirmed_invoices = 0,
            m_paid_invoices = 0, m_overdue_invoices = 0, m_prev_total_invoices = 0,
            m_prev_total_amount = 0, m_amount_change_percent = 0,
            m_invoices_change_percent = 0\<rparr>"
  using dashboard_unlisted_period [OF unlisted_samples(2) truthy_sample quote_free_samples(2),
          of simple_interval_in analytics_store analytics_now]
        dashboard_unlisted_period [OF unlisted_samples(4) truthy_sample quote_free_samples(6),
          of simple_interval_in analytics_store analytics_now]
        dashboard_unlisted_period [OF unlisted_samples(3) truthy_sample quote_free_samples(5),
          of simple_interval_in analytics_store analytics_now]
        dashboard_unlisted_period [OF unlisted_samples(1) truthy_sample quote_free_samples(1),
          of simple_interval_in analytics_store analytics_now]
  by (simp add: interval_text_samples simple_interval_in_samples opt_val_def metrics_2y
        windows_in_range_now)

text \<open>
  The claim as written fails at the period \<open>2y\<close>: the literal is \<open>2 year\<close>, the
  statement runs and the response is not the status 500.
\<close>

theorem dashboard_unlisted_period_counterexample:
  "''2y'' \<notin> set [''7d'', ''30d'', ''90d'', ''1y''] \<and> quote_free ''2y''
   \<and> dashboard simple_interval_in analytics_store analytics_now (Some ''+34600000000'') (Some ''2y'')
       \<noteq> Inl ServerError"
  by (simp add: dashboard_eq [OF truthy_sample] interval_text_samples simple_interval_in_samples
        quote_free_samples dateFilter_def windows_in_range_now)

text \<open>
  The second replacement also hits the \<open>y\<close> of the word \<open>days\<close> that the first one has
  just inserted: the default period \<open>30d\<close> gives the literal \<open>30 da years\<close>.
\<close>

lemma dashboard_day_periods_fail:
  "dashboard simple_interval_in st now (Some ''+34600000000'') None = Inl ServerError"
  "dashboard simple_interval_in st now (Some ''+34600000000'') (Some ''30d'') = Inl ServerError"
  by (simp_all add: dashboard_eq [OF truthy_sample] interval_text_samples simple_interval_in_samples)

lemma sum_amount_nonneg:
  "\<forall>i \<in> set rows. 0 < i_amount i \<Longrightarrow> 0 \<le> sum_amount rows"
  unfolding sum_amount_def by (induction rows) (auto intro: add_nonneg_nonneg less_imp_le)

lemma with_lag_length: "length (with_lag lag xs) = length xs"
  by (induction xs arbitrary: lag) auto

lemma with_lag_nth:
  "k < length xs \<Longrightarrow>
     g_month (with_lag lag xs ! k) = fst (xs ! k)
   \<and> g_monthly_amount (with_lag lag xs ! k) = snd (xs ! k)
   \<and> g_previous_month (with_lag lag xs ! k) = (if k = 0 then lag else Some (snd (xs ! (k - 1))))"
proof (induction xs arbitrary: lag k)
  case Nil
  then show ?case by simp
next
  case (Cons x xs)
  obtain m a where x: "x = (m, a)" by (cases x)
  show ?case
  proof (cases k)
    case 0
    then show ?thesis by (simp add: x)
  next
    case (Suc j)
    with Cons.prems have j: "j < length xs" by simp
    from Cons.IH [OF j, of "Some a"] show ?thesis
      by (cases j) (simp_all add: x Suc)
  qed
qed


lemma group_by_month_months:
  "map fst (group_by_month col rows) = sort (remdups (List.map_filter (row_month col) rows))"
  by (simp add: group_by_month_def comp_def)

lemma monthly_data_months:
  "map fst (monthly_data st now ps) =
     sort (remdups (List.map_filter (row_month i_invoice_date)
        (filter (\<lambda>i. VText (i_company_phone i) = ps ! 0
                       \<and> since now (months_iv 12) (i_invoice_date i)) (invoices st))))"
  by (simp add: monthly_data_def group_by_month_def comp_def)

lemma monthly_data_amounts:
  "(m, a) \<in> set (monthly_data st now ps) \<Longrightarrow>
     a = sum_amount (filter (\<lambda>i. VText (i_company_phone i) = ps ! 0
                       \<and> since now (months_iv 12) (i_invoice_date i)
                       \<and> row_month i_invoice_date i = Some m) (invoices st))"
  by (auto simp: monthly_data_def group_by_month_def conj_commute conj_left_commute
        intro!: arg_cong [where f = sum_amount] filter_cong)


lemma trends_growth_analysis_eq:
  assumes "truthy company_phone"
  shows "trends_growth_analysis st now company_phone =
           Inr (growth_analysis_sql st now [opt_val VText company_phone])"
  using assms by (simp add: trends_growth_analysis_def query_def)

lemma trends_growth_analysis_Inr:
  assumes "trends_growth_analysis st now company_phone = Inr rows"
  shows "truthy company_phone" "rows = growth_analysis_sql st now [opt_val VText company_phone]"
proof -
  show t: "truthy company_phone"
    using assms by (cases "truthy company_phone") (simp_all add: trends_growth_analysis_def)
  from assms show "rows = growth_analysis_sql st now [opt_val VText company_phone]"
    by (simp add: trends_growth_analysis_eq [OF t])
qed

lemma sample_date_epochs:
  "epoch_secs (mk_time 2024 1 10 0) = 1704844800"
  "epoch_secs (mk_time 2025 3 1 0) = 1740787200"
  "epoch_secs (mk_time 2025 5 20 0) = 1747699200"
  by (simp_all add: epoch_secs_mk_time days_from_civil_def Let_def)

lemma sample_months:
  "date_trunc_month (mk_time 2024 1 10 0) = 24288"
  "date_trunc_month (mk_time 2025 3 1 0) = 24302"
  "date_trunc_month (mk_time 2025 5 20 0) = 24304"
  "date_trunc_month (mk_time 2025 4 2 0) = 24303"
  by (simp_all add: date_trunc_month_def mk_time_def)

lemma monthly_data_sample:
  "monthly_data analytics_store analytics_now [VText ''+34600000000''] = [(24302, 250), (24304, 150)]"
  by (simp add: monthly_data_def group_by_month_def analytics_store_def sample_invoice_def
        since_def row_month_def ts_minus_now sample_date_epochs sample_months sum_amount_def
        List.map_filter_simps)

lemma growth_analysis_sample:
  "growth_analysis_sql analytics_store analytics_now [VText ''+34600000000''] =
     [\<lparr>g_month = 24304, g_monthly_amount = 150, g_previous_month = Some 250,
       g_growth_rate = - 40\<rparr>,
      \<lparr>g_month = 24302, g_monthly_amount = 250, g_previous_month = None, g_growth_rate = 0\<rparr>]"
  by (simp add: growth_analysis_sql_def monthly_data_sample round2_def floor_rat_numeral_div)




lemma trends_sample:
  "trends_growth_analysis analytics_store analytics_now (Some ''+34600000000'') =
     Inr [\<lparr>g_month = 24304, g_monthly_amount = 150, g_previous_month = Some 250,
            g_growth_rate = - 40\<rparr>,
          \<lparr>g_month = 24302, g_monthly_amount = 250, g_previous_month = None,
            g_growth_rate = 0\<rparr>]"
  by (simp add: trends_growth_analysis_eq [OF truthy_sample] opt_val_def growth_analysis_sample)


lemma with_lag_guard:
  "\<forall>r \<in> set (with_lag lag xs).
     g_growth_rate r = (case g_previous_month r of
                          None \<Rightarrow> 0
                        | Some p \<Rightarrow> if 0 < p then round2 ((g_monthly_amount r - p) / p * 100)
                                    else 0)"
proof (induction xs arbitrary: lag)
  case Nil
  show ?case by simp
next
  case (Cons x xs)
  obtain m a where x: "x = (m, a)" by (cases x)
  from Cons [of "Some a"] show ?case
    by (simp add: x cong: option.case_cong if_cong)
qed

lemma monthly_data_strict_sorted: "sorted_wrt (<) (map fst (monthly_data st now ps))"
  unfolding monthly_data_months by (simp add: strict_sorted_iff)

lemma set_map_filter_eq:
  "set (List.map_filter f xs) = {y. \<exists>x \<in> set xs. f x = Some y}"
  by (induction xs) (auto split: option.splits)

lemma monthly_data_month_set:
  "set (map fst (monthly_data st now [VText phone])) =
     {m. \<exists>i \<in> set (invoices st). i_company_phone i = phone
           \<and> since now (months_iv 12) (i_invoice_date i)
           \<and> row_month i_invoice_date i = Some m}"
  unfolding monthly_data_months by (auto simp: set_map_filter_eq)

text \<open>
  C7, as the code has it. The growth analysis returns the at most 6 most recent calendar
  months that have an invoice of the company dated in the last 12 months, most recent
  first; each row carries the total of its month and, as previous total, the total of the
  row before it in month order, that is of the most recent earlier month that has such
  an invoice (none on the earliest month of the window); the growth rate of a row is the
  rounded percent change against that previous total when it is positive, and 0 else.
\<close>

theorem growth_analysis_previous_row:
  assumes "trends_growth_analysis st now (Some phone) = Inr rows"
  shows "length rows = min 6 (length (monthly_data st now [VText phone]))
       \<and> (\<forall>k < length rows.
            g_month (rows ! k)
              = fst (monthly_data st now [VText phone] ! (length (monthly_data st now [VText phone]) - 1 - k))
          \<and> g_monthly_amount (rows ! k)
              = snd (monthly_data st now [VText phone] ! (length (monthly_data st now [VText phone]) - 1 - k))
          \<and> g_previous_month (rows ! k)
              = (if length (monthly_data st now [VText phone]) - 1 - k = 0 then None
                 else Some (snd (monthly_data st now [VText phone]
                                   ! (length (monthly_data st now [VText phone]) - 2 - k)))))
       \<and> sorted_wrt (<) (map fst (monthly_data st now [VText phone]))
       \<and> set (map fst (monthly_data st now [VText phone])) =
           {m. \<exists>i \<in> set (invoices st). i_company_phone i = phone
                 \<and> since now (months_iv 12) (i_invoice_date i)
                 \<and> row_month i_invoice_date i = Some m}
       \<and> (\<forall>x \<in> set (monthly_data st now [VText phone]).
            snd x = sum_amount (filter (\<lambda>i. i_company_phone i = phone
                       \<and> since now (months_iv 12) (i_invoice_date i)
                       \<and> row_month i_invoice_date i = Some (fst x)) (invoices st)))
       \<and> (\<forall>r \<in> set rows.
            g_growth_rate r =
              (case g_previous_month r of
                 None \<Rightarrow> 0
               | Some p \<Rightarrow> if 0 < p then round2 ((g_monthly_amount r - p) / p * 100) else 0))"
proof -
  let ?asc = "monthly_data st now [VText phone]"
  let ?w = "with_lag None ?asc"
  let ?n = "length ?asc"
  from trends_growth_analysis_Inr(2) [OF assms]
  have rows: "rows = take 6 (rev ?w)"
    by (simp add: growth_analysis_sql_def opt_val_def)
  have len: "length rows = min 6 ?n"
    by (simp add: rows with_lag_length min.commute)
  have nth: "\<forall>k < length rows.
            g_month (rows ! k) = fst (?asc ! (?n - 1 - k))
          \<and> g_monthly_amount (rows ! k) = snd (?asc ! (?n - 1 - k))
          \<and> g_previous_month (rows ! k)
              = (if ?n - 1 - k = 0 then None else Some (snd (?asc ! (?n - 2 - k))))"
  proof (intro allI impI)
    fix k assume k: "k < length rows"
    with len have kn: "k < ?n" and k6: "k < 6" by simp_all
    then have j: "?n - 1 - k < ?n" by simp
    have "rows ! k = rev ?w ! k"
      using k6 by (simp add: rows)
    also have "\<dots> = ?w ! (?n - 1 - k)"
      using kn by (simp add: rev_nth with_lag_length)
    finally have r: "rows ! k = ?w ! (?n - 1 - k)" .
    have "?n - 1 - k - 1 = ?n - 2 - k" by simp
    with with_lag_nth [OF j, of None]
    show "g_month (rows ! k) = fst (?asc ! (?n - 1 - k))
          \<and> g_monthly_amount (rows ! k) = snd (?asc ! (?n - 1 - k))
          \<and> g_previous_month (rows ! k)
              = (if ?n - 1 - k = 0 then None else Some (snd (?asc ! (?n - 2 - k))))"
      by (simp only: r)
  qed
  have sums: "\<forall>x \<in> set ?asc.
            snd x = sum_amount (filter (\<lambda>i. i_company_phone i = phone
                       \<and> since now (months_iv 12) (i_invoice_date i)
                       \<and> row_month i_invoice_date i = Some (fst x)) (invoices st))"
  proof
    fix x assume "x \<in> set ?asc"
    then have "(fst x, snd x) \<in> set ?asc" by simp
    from monthly_data_amounts [OF this] show "snd x = sum_amount (filter (\<lambda>i. i_company_phone i = phone
                       \<and> since now (months_iv 12) (i_invoice_date i)
                       \<and> row_month i_invoice_date i = Some (fst x)) (invoices st))"
      by simp
  qed
  have "set rows \<subseteq> set ?w"
    unfolding rows by (auto dest: in_set_takeD)
  with with_lag_guard [of None ?asc]
  have guard: "\<forall>r \<in> set rows.
            g_growth_rate r =
              (case g_previous_month r of
                 None \<Rightarrow> 0
               | Some p \<Rightarrow> if 0 < p then round2 ((g_monthly_amount r - p) / p * 100) else 0)"
    by blast
  from len nth monthly_data_strict_sorted [of st now "[VText phone]"]
    monthly_data_month_set [of st now phone] sums guard
  show ?thesis by blast
qed

theorem growth_analysis_previous_row_witness:
  "trends_growth_analysis analytics_store analytics_now (Some ''+34600000000'') =
     Inr [\<lparr>g_month = 24304, g_monthly_amount = 150, g_previous_month = Some 250,
            g_growth_rate = - 40\<rparr>,
          \<lparr>g_month = 24302, g_monthly_amount = 250, g_previous_month = None,
            g_growth_rate = 0\<rparr>]
   \<and> monthly_data analytics_store analytics_now [VText ''+34600000000'']
       = [(24302, 250), (24304, 150)]
   \<and> length [\<lparr>g_month = 24304, g_monthly_amount = 150, g_previous_month = Some 250,
            g_growth_rate = - 40\<rparr>,
          \<lparr>g_month = 24302, g_monthly_amount = 250, g_previous_month = None,
            g_growth_rate = (0::rat)\<rparr>]
       = min 6 (length (monthly_data analytics_store analytics_now [VText ''+34600000000'']))"
  using growth_analysis_previous_row [OF trends_sample]
  by (simp add: trends_sample monthly_data_sample)

text \<open>
  The claim as written fails when a month has no invoice: with invoices in March and May
  2025 and none in April, the row of May is paired with the total of March.
\<close>

theorem growth_analysis_gap_counterexample:
  "trends_growth_analysis analytics_store analytics_now (Some ''+34600000000'') =
     Inr [\<lparr>g_month = 24304, g_monthly_amount = 150, g_previous_month = Some 250,
            g_growth_rate = - 40\<rparr>,
          \<lparr>g_month = 24302, g_monthly_amount = 250, g_previous_month = None,
            g_growth_rate = 0\<rparr>]
   \<and> filter (\<lambda>i. i_company_phone i = ''+34600000000''
                 \<and> row_month i_invoice_date i = Some (24304 - 1)) (invoices analytics_store) = []
   \<and> sum_amount (filter (\<lambda>i. i_company_phone i = ''+34600000000''
                 \<and> row_month i_invoice_date i = Some (24304 - 2)) (invoices analytics_store)) = 250"
proof -
  have "filter (\<lambda>i. i_company_phone i = ''+34600000000''
                 \<and> row_month i_invoice_date i = Some (24304 - 1)) (invoices analytics_store) = []"
    and "sum_amount (filter (\<lambda>i. i_company_phone i = ''+34600000000''
                 \<and> row_month i_invoice_date i = Some (24304 - 2)) (invoices analytics_store)) = 250"
    by (simp_all add: analytics_store_def sample_invoice_def row_month_def sample_months
          sum_amount_def)
  with trends_sample show ?thesis by (simp only: simp_thms)
qed

subsection \<open>Predictions: the growth rate\<close>

lemma ts_minus_now_short:
  "ts_minus analytics_now (months_iv 6) = 1734264000"
  "ts_minus analytics_now (months_iv 3) = 1742040000"
  by (simp_all add: ts_minus_def analytics_now_def months_iv_def add_months_def
        date_trunc_month_def days_in_month_def is_leap_year_def epoch_secs_def mk_time_def
        days_from_civil_def Let_def)

lemma growth_rate_sample:
  "growth_rate_cte analytics_store analytics_now [VText ''+34600000000''] = Inr (200 / 3)"
  by (simp add: growth_rate_cte_def group_by_month_def analytics_store_def sample_invoice_def
        since_def row_month_def ts_minus_now_short sample_date_epochs sample_months
        sum_amount_def sql_max_def sql_min_def Let_def)

lemma floor_rat_neg_numeral_div:
  "\<lfloor>- (numeral a / numeral b :: rat)\<rfloor> = - numeral a div numeral b"
  using floor_divide_of_int_eq [of "- numeral a" "numeral b", where ?'a = rat] by simp

lemma historicalData_sample:
  "historicalData_sql analytics_store analytics_now [VText ''+34600000000''] =
     Inr (Some \<lparr>p_next_month_predicted_amount = Some 250, p_next_month_predicted_invoices = 2,
                 p_confidence_level = ''Low'', p_based_on_months = 3\<rparr>)"
proof -
  have c: "\<lceil>(11 / 10 :: rat)\<rceil> = 2"
    by (simp add: ceiling_def floor_rat_neg_numeral_div)
  have r: "round2 250 = 250"
    by (simp add: round2_def floor_rat_numeral_div)
  show ?thesis
    unfolding historicalData_sql_def growth_rate_sample
    by (simp add: analytics_store_def sample_invoice_def since_def ts_minus_now_short
          ts_minus_now sample_date_epochs sum_amount_def count_rows_def c r Let_def)
qed

text \<open>
  C2 (evaluation of the code). On the sample store the latest month with invoices (May
  2025) totals 150 and the one before it (March 2025) totals 250. The growth-rate CTE
  yields \<open>200/3\<close>, about +66.67, where the signed percent change is -40; the predicted
  amount is 250 instead of 90.
\<close>

theorem growth_rate_loses_sign:
  "growth_rate_cte analytics_store analytics_now [VText ''+34600000000''] = Inr (200 / 3)
   \<and> monthly_data analytics_store analytics_now [VText ''+34600000000'']
        = [(24302, 250), (24304, 150)]
   \<and> ((150 - 250) / 250 * 100 :: rat) = - 40
   \<and> predictions_route analytics_store analytics_now (Some ''+34600000000'') =
        Inr (Some \<lparr>p_next_month_predicted_amount = Some 250,
                    p_next_month_predicted_invoices = 2,
                    p_confidence_level = ''Low'', p_based_on_months = 3\<rparr>)
   \<and> round2 (150 * 1 * (1 + (- 40) / 100)) = 90"
proof -
  have "predictions_route analytics_store analytics_now (Some ''+34600000000'') =
        Inr (Some \<lparr>p_next_month_predicted_amount = Some 250,
                    p_next_month_predicted_invoices = 2,
                    p_confidence_level = ''Low'', p_based_on_months = 3\<rparr>)"
    by (simp add: predictions_route_def truthy_def query_def opt_val_def historicalData_sample)
  moreover have "round2 (150 * 1 * (1 + (- 40) / 100)) = 90"
    by (simp add: round2_def floor_rat_numeral_div)
  ultimately show ?thesis
    by (simp add: growth_rate_sample monthly_data_sample)
qed

lemma fold_max_ge: "a \<le> fold max xs (a :: rat)"
  by (induction xs arbitrary: a) (auto intro: order_trans [OF max.cobounded2])

lemma fold_min_le: "fold min xs (a :: rat) \<le> a"
  by (induction xs arbitrary: a) (auto intro: order_trans [OF _ min.cobounded2])

text \<open>
  With positive amounts the growth rate of the predictions is never negative, whatever
  the order of the two monthly totals.
\<close>

lemma fold_min_nonneg: "0 \<le> a \<Longrightarrow> \<forall>x \<in> set xs. 0 \<le> x \<Longrightarrow> 0 \<le> fold min xs (a :: rat)"
  by (induction xs arbitrary: a) auto

lemma sql_min_le_max: "sql_min xs \<le> sql_max xs"
  unfolding sql_min_def sql_max_def
  by (rule order_trans [OF fold_min_le fold_max_ge])

lemma sql_min_nonneg:
  assumes "xs \<noteq> []" "\<forall>x \<in> set xs. 0 \<le> x"
  shows "0 \<le> sql_min xs"
proof -
  from assms obtain y ys where xs: "xs = y # ys" by (cases xs) auto
  with assms(2) show ?thesis
    by (simp add: sql_min_def fold_min_nonneg)
qed

lemma group_totals_nonneg:
  assumes "\<forall>i \<in> set rows. 0 < i_amount i"
  shows "\<forall>x \<in> set (map (\<lambda>(m, rs). (m, sum_amount rs)) (group_by_month col rows)). 0 \<le> snd x"
proof -
  have "0 \<le> sum_amount (filter P rows)" for P
    by (rule sum_amount_nonneg) (use assms in auto)
  then show ?thesis
    by (auto simp: group_by_month_def)
qed

lemma growth_rate_cte_nonneg:
  assumes "\<forall>i \<in> set (invoices st). 0 < i_amount i"
      and "growth_rate_cte st now ps = Inr g"
  shows "0 \<le> g"
proof -
  let ?rows = "filter (\<lambda>i. VText (i_company_phone i) = ps ! 0
                                  \<and> since now (months_iv 6) (i_invoice_date i)) (invoices st)"
  let ?sub = "take 2 (rev (map (\<lambda>(m, rows). (m, sum_amount rows))
                  (group_by_month i_invoice_date ?rows)))"
  let ?tot = "map snd ?sub"
  show ?thesis
  proof (cases "2 \<le> length ?sub")
    case False
    with assms(2) show ?thesis
      by (simp add: growth_rate_cte_def Let_def)
  next
    case True
    then have ne: "?tot \<noteq> []" by auto
    have "\<forall>i \<in> set ?rows. 0 < i_amount i"
      using assms(1) by auto
    from group_totals_nonneg [OF this, of i_invoice_date]
    have "\<forall>x \<in> set ?sub. 0 \<le> snd x"
      by (meson in_set_takeD set_rev [THEN equalityD1, THEN subsetD])
    then have nn: "\<forall>x \<in> set ?tot. 0 \<le> x"
      by auto
    from sql_min_nonneg [OF ne nn] have m0: "0 \<le> sql_min ?tot" .
    from assms(2) True have nz: "sql_min ?tot \<noteq> 0"
      and g: "g = (sql_max ?tot - sql_min ?tot) / sql_min ?tot * 100"
      by (auto simp: growth_rate_cte_def Let_def split: if_splits)
    from m0 nz have "0 < sql_min ?tot" by simp
    moreover have "0 \<le> sql_max ?tot - sql_min ?tot"
      using sql_min_le_max [of ?tot] by simp
    ultimately show ?thesis
      unfolding g by (simp add: divide_nonneg_pos)
  qed
qed

subsection \<open>Cash flow\<close>

lemma cashflow_fails:
  assumes "truthy company_phone"
  shows "cashflow st now company_phone months_param = Inl ServerError"
  using assms by (simp add: cashflow_def query_def Let_def)

lemma cashflow_times:
  "ts_plus analytics_now (months_iv 3) = 1757937600"
  "epoch_secs (current_date analytics_now) = 1749945600"
  "ts_minus (current_date analytics_now) (days_iv 30) = 1747353600"
  "epoch_secs (mk_time 2025 6 14 0) = 1749859200"
  "date_trunc_month (mk_time 2025 6 14 0) = 24305"
  by (simp_all add: ts_plus_def ts_minus_def analytics_now_def months_iv_def days_iv_def
        add_months_def current_date_def date_trunc_month_def days_in_month_def
        is_leap_year_def epoch_secs_def mk_time_def days_from_civil_def Let_def)

lemma cashflow_sql_scenario:
  "cashflow_sql overdue_store analytics_now 6 [VText ''+34600000000''] =
     \<lparr>cd_monthly_cashflow =
        Some [\<lparr>cf_month = 24305, cf_pending_payments = 121, cf_completed_payments = 0,
                cf_overdue_count = 1, cf_overdue_amount = 121\<rparr>],
      cd_upcoming_payments =
        Some [\<lparr>up_due_date = Some (mk_time 2025 6 14 0), up_supplier_name = ''Acme'',
                up_amount = 121, up_status = ''confirmed'', up_urgency = ''overdue''\<rparr>]\<rparr>"
  by (simp add: cashflow_sql_def monthly_cashflow_cte_def upcoming_payments_cte_def json_agg_def
        group_by_month_def row_month_def overdue_store_def sample_invoice_def since_def
        until_def overdue_def urgency_def sum_amount_def count_rows_def
        ts_minus_now_short cashflow_times)

text \<open>
  C1 (evaluation of the code). With one invoice of 121.00, confirmed and due the day
  before the request, the cash-flow route answers with status 500: its statement needs
  the company as \<open>$1\<close> and the call passes no values. The same statement with the company
  bound puts the invoice into the bucket of June 2025 with \<open>overdue_count = 1\<close> and
  \<open>overdue_amount = 121\<close>.
\<close>

theorem cashflow_scenario_fails:
  "cashflow overdue_store analytics_now (Some ''+34600000000'') None = Inl ServerError
   \<and> cashflow overdue_store analytics_now (Some ''+34600000000'') (Some 6) = Inl ServerError
   \<and> query 1 [VText ''+34600000000''] (cashflow_sql overdue_store analytics_now 6) =
       Inr \<lparr>cd_monthly_cashflow =
              Some [\<lparr>cf_month = 24305, cf_pending_payments = 121, cf_completed_payments = 0,
                      cf_overdue_count = 1, cf_overdue_amount = 121\<rparr>],
            cd_upcoming_payments =
              Some [\<lparr>up_due_date = Some (mk_time 2025 6 14 0), up_supplier_name = ''Acme'',
                      up_amount = 121, up_status = ''confirmed'', up_urgency = ''overdue''\<rparr>]\<rparr>"
  by (simp add: cashflow_fails truthy_sample query_def cashflow_sql_scenario)

subsection \<open>The listing and its optional company filter\<close>

lemma filters_inv_empty: "filters_inv ilike ([], []) (\<lambda>i. True)"
  by (simp add: filters_inv_def)

lemma filters_inv_add:
  assumes inv: "filters_inv ilike b P"
      and sem: "\<And>k ps i. ps ! (k - 1) = v \<Longrightarrow> eval_cond ilike ps (mk k) i = Q i"
  shows "filters_inv ilike (add_cond mk v b) (\<lambda>i. P i \<and> Q i)"
proof -
  obtain conds ps where b: "b = (conds, ps)" by (cases b)
  from inv have len: "length ps = length conds"
    and old: "\<And>i xs. list_all (\<lambda>c. eval_cond ilike (ps @ xs) c i) conds = P i"
    by (simp_all add: filters_inv_def b)
  have new: "eval_cond ilike ((ps @ [v]) @ xs) (mk (Suc (length ps))) i = Q i" for xs i
    by (rule sem) (simp add: nth_append)
  have old': "list_all (\<lambda>c. eval_cond ilike ((ps @ [v]) @ xs) c i) conds = P i" for xs i
    using old [of "[v] @ xs" i] by simp
  show ?thesis
    unfolding filters_inv_def add_cond_def b
    using len old' new by simp
qed

lemma filters_inv_cong:
  "filters_inv ilike b P \<Longrightarrow> (\<And>i. P i = P' i) \<Longrightarrow> filters_inv ilike b P'"
  by (simp add: filters_inv_def)

lemma filters_inv_add_if:
  assumes inv: "filters_inv ilike b P"
      and sem: "\<And>k ps i. ps ! (k - 1) = v \<Longrightarrow> eval_cond ilike ps (mk k) i = Q i"
  shows "filters_inv ilike (if t then add_cond mk v b else b) (\<lambda>i. P i \<and> (t \<longrightarrow> Q i))"
proof (cases t)
  case True
  from filters_inv_add [OF inv sem] have "filters_inv ilike (add_cond mk v b) (\<lambda>i. P i \<and> Q i)" .
  with True show ?thesis by simp
next
  case False
  with inv show ?thesis by simp
qed

lemma filters_inv_add_opt:
  assumes inv: "filters_inv ilike b P"
      and sem: "\<And>d k ps i. ps ! (k - 1) = f d \<Longrightarrow> eval_cond ilike ps (mk k) i = Q d i"
  shows "filters_inv ilike (case x of None \<Rightarrow> b | Some d \<Rightarrow> add_cond mk (f d) b)
           (\<lambda>i. P i \<and> (case x of None \<Rightarrow> True | Some d \<Rightarrow> Q d i))"
proof (cases x)
  case None
  with inv show ?thesis by simp
next
  case (Some d)
  from filters_inv_add [OF inv sem [of _ _ d]]
  have "filters_inv ilike (add_cond mk (f d) b) (\<lambda>i. P i \<and> Q d i)" .
  with Some show ?thesis by simp
qed

lemma build_filters_inv:
  "filters_inv ilike (build_filters q)
     (\<lambda>i. (truthy (q_company_phone q) \<longrightarrow> Some (i_company_phone i) = q_company_phone q)
          \<and> other_filters ilike q i)"
proof -
  let ?Q1 = "\<lambda>i. VText (i_company_phone i) = opt_val VText (q_company_phone q)"
  let ?Q2 = "\<lambda>i. VText (i_status i) = opt_val VText (q_status q)"
  let ?v3 = "opt_val (\<lambda>c. VText (''%'' @ c @ ''%'')) (q_category q)"
  let ?Q3 = "\<lambda>i. case (i_category i, ?v3) of (Some c, VText pat) \<Rightarrow> ilike c pat | _ \<Rightarrow> False"
  let ?v4 = "opt_val (\<lambda>c. VText (''%'' @ c @ ''%'')) (q_supplier q)"
  let ?Q4 = "\<lambda>i. case ?v4 of VText pat \<Rightarrow> ilike (i_supplier_name i) pat | _ \<Rightarrow> False"
  let ?Q5 = "\<lambda>t i. case i_invoice_date i of None \<Rightarrow> False | Some d \<Rightarrow> epoch_secs t \<le> epoch_secs d"
  let ?Q6 = "\<lambda>t i. case i_invoice_date i of None \<Rightarrow> False | Some d \<Rightarrow> epoch_secs d \<le> epoch_secs t"
  have b1: "filters_inv ilike
      (if truthy (q_company_phone q)
       then add_cond CompanyEq (opt_val VText (q_company_phone q)) ([], []) else ([], []))
      (\<lambda>i. True \<and> (truthy (q_company_phone q) \<longrightarrow> ?Q1 i))"
    by (rule filters_inv_add_if [OF filters_inv_empty]) simp
  have b2: "filters_inv ilike
      (if truthy (q_status q) then add_cond StatusEq (opt_val VText (q_status q)) b else b)
      (\<lambda>i. P i \<and> (truthy (q_status q) \<longrightarrow> ?Q2 i))" if "filters_inv ilike b P" for b P
    by (rule filters_inv_add_if [OF that]) simp
  have b3: "filters_inv ilike
      (if truthy (q_category q) then add_cond CategoryILike ?v3 b else b)
      (\<lambda>i. P i \<and> (truthy (q_category q) \<longrightarrow> ?Q3 i))" if "filters_inv ilike b P" for b P
    by (rule filters_inv_add_if [OF that]) simp
  have b4: "filters_inv ilike
      (if truthy (q_supplier q) then add_cond SupplierILike ?v4 b else b)
      (\<lambda>i. P i \<and> (truthy (q_supplier q) \<longrightarrow> ?Q4 i))" if "filters_inv ilike b P" for b P
    by (rule filters_inv_add_if [OF that]) simp
  have b5: "filters_inv ilike
      (case q_date_from q of None \<Rightarrow> b | Some d \<Rightarrow> add_cond DateFrom (VTime d) b)
      (\<lambda>i. P i \<and> (case q_date_from q of None \<Rightarrow> True | Some t \<Rightarrow> ?Q5 t i))"
    if "filters_inv ilike b P" for b P
    by (rule filters_inv_add_opt [OF that]) (simp split: option.splits)
  have b6: "filters_inv ilike
      (case q_date_to q of None \<Rightarrow> b | Some d \<Rightarrow> add_cond DateTo (VTime d) b)
      (\<lambda>i. P i \<and> (case q_date_to q of None \<Rightarrow> True | Some t \<Rightarrow> ?Q6 t i))"
    if "filters_inv ilike b P" for b P
    by (rule filters_inv_add_opt [OF that]) (simp split: option.splits)
  note all = b6 [OF b5 [OF b4 [OF b3 [OF b2 [OF b1]]]]]
  show ?thesis
    unfolding build_filters_def Let_def
    by (rule filters_inv_cong [OF all])
       (auto simp: other_filters_def truthy_def opt_val_def split: option.splits)
qed

lemma where_rows_build_filters:
  "where_rows ilike st (fst (build_filters q)) (snd (build_filters q) @ xs) = listing_rows ilike st q"
  using build_filters_inv [of ilike q]
  by (simp add: where_rows_def listing_rows_def filters_inv_def)

lemma build_filters_length: "length (snd (build_filters q)) = length (fst (build_filters q))"
  using build_filters_inv [of "\<lambda>_ _. True" q] by (simp add: filters_inv_def)

lemma list_invoices_eq:
  "list_invoices ilike text_le st q =
     (let limit = (case q_limit q of None \<Rightarrow> 50 | Some n \<Rightarrow> n);
          offset = (case q_offset q of None \<Rightarrow> 0 | Some n \<Rightarrow> n);
          rows = listing_rows ilike st q
      in if limit < 0 \<or> offset < 0 then Inl ServerError
         else Inr \<lparr>lsr_data = take (nat limit) (drop (nat offset)
                       (order_by (row_order text_le (sortColumn (q_sort_by q))
                                    (sortDirection (q_sort_order q))) rows)),
                   lsr_total = count_rows rows, lsr_limit = limit, lsr_offset = offset,
                   lsr_pages = (if limit = 0 then None
                                else Some \<lceil>(of_int (count_rows rows) :: rat) / of_int limit\<rceil>)\<rparr>)"
proof -
  let ?conds = "fst (build_filters q)"
  let ?ps = "snd (build_filters q)"
  let ?limit = "case q_limit q of None \<Rightarrow> 50 | Some n \<Rightarrow> n"
  let ?offset = "case q_offset q of None \<Rightarrow> 0 | Some n \<Rightarrow> n"
  note len = build_filters_length [of q]
  have n1: "(?ps @ [VInt ?limit, VInt ?offset]) ! length ?conds = VInt ?limit"
    and n2: "(?ps @ [VInt ?limit, VInt ?offset]) ! Suc (length ?conds) = VInt ?offset"
    by (simp_all add: nth_append len)
  have main: "list_sql ilike text_le st ?conds col dir (?ps @ [VInt ?limit, VInt ?offset]) =
     (if ?limit < 0 \<or> ?offset < 0 then Inl QueryError
      else Inr (take (nat ?limit) (drop (nat ?offset)
                 (order_by (row_order text_le col dir) (listing_rows ilike st q)))))" for col dir
    unfolding list_sql_def n1 n2 where_rows_build_filters by simp
  have cnt: "count_sql ilike st ?conds ?ps = count_rows (listing_rows ilike st q)"
    using where_rows_build_filters [of ilike st q "[]"] by (simp add: count_sql_def)
  show ?thesis
    unfolding list_invoices_def Let_def query_def
    by (simp add: len main cnt)
qed

lemma left_join_invoices: "lr_invoice ` set (left_join_suppliers sups invs) = set invs"
proof (induction invs)
  case Nil
  then show ?case by (simp add: left_join_suppliers_def)
next
  case (Cons i invs)
  let ?ms = "filter (\<lambda>s. i_supplier_name i = s_name s \<and> i_company_phone i = s_company_phone s) sups"
  have "lr_invoice ` set (case ?ms of
          [] \<Rightarrow> [\<lparr>lr_invoice = i, lr_supplier_full_name = None, lr_supplier_rating = None\<rparr>]
        | ms \<Rightarrow> map (\<lambda>s. \<lparr>lr_invoice = i, lr_supplier_full_name = Some (s_name s),
                             lr_supplier_rating = s_rating s\<rparr>) ms) = {i}"
    by (cases ?ms) (auto simp: image_iff)
  with Cons show ?case
    by (simp add: left_join_suppliers_def image_Un)
qed

lemma other_filters_company:
  "other_filters ilike q (i\<lparr>i_company_phone := c\<rparr>) = other_filters ilike q i"
  by (simp add: other_filters_def split: option.splits)

text \<open>
  C8. When a listing request carries no company (absent or empty), the rows before
  paging are the joined rows of all invoices that pass the other filters, of whatever
  company: the total is their number, the data is that list ordered and cut by offset
  and limit, every stored invoice that passes the other filters is among them, and the
  other filters do not look at the company of an invoice.
\<close>

theorem list_invoices_without_company:
  assumes "\<not> truthy (q_company_phone q)"
      and "list_invoices ilike text_le st q = Inr resp"
  shows "lsr_total resp =
           count_rows (filter (\<lambda>r. other_filters ilike q (lr_invoice r))
                         (left_join_suppliers (suppliers st) (invoices st)))
       \<and> lsr_data resp =
           take (nat (lsr_limit resp)) (drop (nat (lsr_offset resp))
             (order_by (row_order text_le (sortColumn (q_sort_by q))
                          (sortDirection (q_sort_order q)))
                (filter (\<lambda>r. other_filters ilike q (lr_invoice r))
                   (left_join_suppliers (suppliers st) (invoices st)))))
       \<and> lr_invoice ` set (filter (\<lambda>r. other_filters ilike q (lr_invoice r))
                              (left_join_suppliers (suppliers st) (invoices st)))
           = {i \<in> set (invoices st). other_filters ilike q i}
       \<and> (\<forall>i c. other_filters ilike q (i\<lparr>i_company_phone := c\<rparr>) = other_filters ilike q i)"
proof -
  let ?rows = "filter (\<lambda>r. other_filters ilike q (lr_invoice r))
                 (left_join_suppliers (suppliers st) (invoices st))"
  from assms(1) have rows: "listing_rows ilike st q = ?rows"
    by (simp add: listing_rows_def)
  from assms(2) have resp: "lsr_total resp = count_rows ?rows"
      "lsr_data resp = take (nat (lsr_limit resp)) (drop (nat (lsr_offset resp))
             (order_by (row_order text_le (sortColumn (q_sort_by q))
                          (sortDirection (q_sort_order q))) ?rows))"
    unfolding list_invoices_eq rows Let_def by (auto split: if_splits)
  have "lr_invoice ` set ?rows =
          {i \<in> lr_invoice ` set (left_join_suppliers (suppliers st) (invoices st)).
             other_filters ilike q i}"
    by auto
  then have cover: "lr_invoice ` set ?rows = {i \<in> set (invoices st). other_filters ilike q i}"
    by (simp only: left_join_invoices)
  from resp cover other_filters_company [of ilike q] show ?thesis
    by blast
qed

lemma sort_defaults:
  "sortColumn None = ''created_at''" "sortDirection None = ''DESC''"
  by (simp_all add: sortColumn_def sortDirection_def to_upper_def Let_def)

lemma pending_rows:
  "listing_rows like_match analytics_store pending_query =
     [\<lparr>lr_invoice = sample_invoice 3 ''+34600000000'' ''Bolt'' 150 (Some (mk_time 2025 5 20 0))
                      None ''pending'' (mk_time 2025 5 21 0),
       lr_supplier_full_name = None, lr_supplier_rating = None\<rparr>,
      \<lparr>lr_invoice = sample_invoice 4 ''+34911111111'' ''Acme'' 999 (Some (mk_time 2025 4 2 0))
                      None ''pending'' (mk_time 2025 4 2 0),
       lr_supplier_full_name = None, lr_supplier_rating = None\<rparr>]"
proof -
  have s: "i_status (sample_invoice n p s a d due st c) = st" for n p s a d due st c
    by (simp add: sample_invoice_def)
  show ?thesis
    by (simp add: listing_rows_def pending_query_def all_invoices_query_def truthy_def
          other_filters_def analytics_store_def left_join_suppliers_def s)
qed

lemma pending_listing:
  "list_invoices like_match bytes_le analytics_store pending_query =
     Inr \<lparr>lsr_data =
            [\<lparr>lr_invoice = sample_invoice 3 ''+34600000000'' ''Bolt'' 150
                              (Some (mk_time 2025 5 20 0)) None ''pending'' (mk_time 2025 5 21 0),
              lr_supplier_full_name = None, lr_supplier_rating = None\<rparr>,
             \<lparr>lr_invoice = sample_invoice 4 ''+34911111111'' ''Acme'' 999
                              (Some (mk_time 2025 4 2 0)) None ''pending'' (mk_time 2025 4 2 0),
              lr_supplier_full_name = None, lr_supplier_rating = None\<rparr>],
          lsr_total = 2, lsr_limit = 50, lsr_offset = 0, lsr_pages = Some 1\<rparr>"
proof -
  have c: "i_created_at (sample_invoice n p s a d due st c) = c" for n p s a d due st c
    by (simp add: sample_invoice_def)
  have q: "q_limit pending_query = None" "q_offset pending_query = None"
    "q_sort_by pending_query = None" "q_sort_order pending_query = None"
    by (simp_all add: pending_query_def all_invoices_query_def)
  have p: "\<lceil>(1 / 25 :: rat)\<rceil> = 1"
    by (rule ceiling_unique) simp_all
  show ?thesis
    unfolding list_invoices_eq pending_rows q sort_defaults
    by (simp add: order_by_def row_order_def column_le_def c sample_created_epochs
          count_rows_def p)
qed

lemma pending_query_no_company: "\<not> truthy (q_company_phone pending_query)"
  by (simp add: pending_query_def all_invoices_query_def truthy_def)

theorem list_invoices_without_company_witness:
  "list_invoices like_match bytes_le analytics_store pending_query =
     Inr \<lparr>lsr_data =
            [\<lparr>lr_invoice = sample_invoice 3 ''+34600000000'' ''Bolt'' 150
                              (Some (mk_time 2025 5 20 0)) None ''pending'' (mk_time 2025 5 21 0),
              lr_supplier_full_name = None, lr_supplier_rating = None\<rparr>,
             \<lparr>lr_invoice = sample_invoice 4 ''+34911111111'' ''Acme'' 999
                              (Some (mk_time 2025 4 2 0)) None ''pending'' (mk_time 2025 4 2 0),
              lr_supplier_full_name = None, lr_supplier_rating = None\<rparr>],
          lsr_total = 2, lsr_limit = 50, lsr_offset = 0, lsr_pages = Some 1\<rparr>
   \<and> count_rows (filter (\<lambda>r. other_filters like_match pending_query (lr_invoice r))
                   (left_join_suppliers (suppliers analytics_store) (invoices analytics_store)))
       = 2"
  using list_invoices_without_company [OF pending_query_no_company pending_listing]
  by (simp add: pending_listing)

subsection \<open>The stored last invoice date and the recency of a supplier\<close>

































end
